theory Spec2Isabelle
  imports Complex_Main "HOL-Library.Sublist"
begin

section \<open>Python values, exceptions and the outside world\<close>

text \<open>
  The client of \<^verbatim>\<open>watsonx_direct_api.py\<close> handles values decoded from JSON, raises and
  catches exceptions, reads the wall clock and posts HTTP requests. Each of these is made
  explicit here. A \<^verbatim>\<open>float\<close> is either a finite number, taken with exact arithmetic, or
  one of the three special values the JSON decoder accepts.
\<close>

datatype pyfloat = Finite real | PosInf | NegInf | NaN

datatype json =
    JNull
  | JBool bool
  | JInt int
  | JFloat pyfloat
  | JStr string
  | JArr "json list"
  | JObj "(string \<times> json) list"

text \<open>Truth value of an object in a condition (\<^verbatim>\<open>if x\<close>, \<^verbatim>\<open>x and y\<close>, \<^verbatim>\<open>not x\<close>).\<close>

fun truthy :: "json \<Rightarrow> bool" where
  "truthy JNull = False"
| "truthy (JBool b) = b"
| "truthy (JInt i) = (i \<noteq> 0)"
| "truthy (JFloat f) = (f \<noteq> Finite 0)"
| "truthy (JStr s) = (s \<noteq> [])"
| "truthy (JArr xs) = (xs \<noteq> [])"
| "truthy (JObj kvs) = (kvs \<noteq> [])"

text \<open>\<^verbatim>\<open>d.get(k)\<close> on a dictionary: the value stored under the key, \<^verbatim>\<open>None\<close> when absent.\<close>

definition dict_get :: "(string \<times> json) list \<Rightarrow> string \<Rightarrow> json" where
  "dict_get kvs k = (case map_of kvs k of None \<Rightarrow> JNull | Some v \<Rightarrow> v)"

text \<open>
  The exception classes the client can meet. \<^verbatim>\<open>ConnectTimeout\<close> derives from both
  \<^verbatim>\<open>ConnectionError\<close> and \<^verbatim>\<open>Timeout\<close>; \<^verbatim>\<open>RequestsJSONDecodeError\<close> is the class
  \<^verbatim>\<open>requests.exceptions.JSONDecodeError\<close>, which derives from both \<^verbatim>\<open>RequestException\<close>
  and \<^verbatim>\<open>json.JSONDecodeError\<close>. \<^verbatim>\<open>OtherRequestException\<close> stands for the remaining
  subclasses of \<^verbatim>\<open>RequestException\<close>, \<^verbatim>\<open>PlainException\<close> for \<^verbatim>\<open>Exception\<close> itself and
  \<^verbatim>\<open>OtherException\<close> for any other subclass of it.
\<close>

datatype exc_class =
    HTTPError
  | ConnectionError
  | ConnectTimeout
  | Timeout
  | ReadTimeout
  | RequestsJSONDecodeError
  | OtherRequestException
  | JSONDecodeError
  | ValueError
  | AttributeError
  | KeyError
  | IndexError
  | TypeError
  | NameError
  | UnboundLocalError
  | PlainException
  | OtherException

record response =
  status_code :: int
  body_text :: string
  body_json :: "json option"

text \<open>
  \<^verbatim>\<open>body_json\<close> is what \<^verbatim>\<open>response.json()\<close> returns, \<open>None\<close> when the body is not JSON
  and the call raises. An exception carries its class, the text \<^verbatim>\<open>str(e)\<close> and, for an
  \<^verbatim>\<open>HTTPError\<close> raised by \<^verbatim>\<open>raise_for_status\<close>, the response.
\<close>

datatype exn = Exn (cls: exc_class) (msg: string) (resp: "response option")

definition is_RequestException :: "exn \<Rightarrow> bool" where
  "is_RequestException e = (cls e \<in> {HTTPError, ConnectionError, ConnectTimeout, Timeout,
     ReadTimeout, RequestsJSONDecodeError, OtherRequestException})"

definition is_HTTPError :: "exn \<Rightarrow> bool" where
  "is_HTTPError e = (cls e = HTTPError)"

definition is_ConnectionError :: "exn \<Rightarrow> bool" where
  "is_ConnectionError e = (cls e \<in> {ConnectionError, ConnectTimeout})"

definition is_Timeout :: "exn \<Rightarrow> bool" where
  "is_Timeout e = (cls e \<in> {Timeout, ConnectTimeout, ReadTimeout})"

definition is_JSONDecodeError :: "exn \<Rightarrow> bool" where
  "is_JSONDecodeError e = (cls e \<in> {JSONDecodeError, RequestsJSONDecodeError})"

definition is_NameError :: "exn \<Rightarrow> bool" where
  "is_NameError e = (cls e \<in> {NameError, UnboundLocalError})"

text \<open>
  What the client uses of the Python run time and of the \<^verbatim>\<open>requests\<close> library without
  fixing it: the JSON decoder \<^verbatim>\<open>json.loads\<close>, the exception \<^verbatim>\<open>response.json()\<close> raises on
  a body that is not JSON, the text \<^verbatim>\<open>str(x)\<close> of a decoded value that is not a string,
  the text of the \<^verbatim>\<open>HTTPError\<close> built by \<^verbatim>\<open>raise_for_status\<close>, and the text of an error
  raised by the interpreter (its class, the operation, the offending object). Every
  theorem below holds for all of them.
\<close>

record pylib =
  json_loads :: "string \<Rightarrow> exn + json"
  json_error :: "response \<Rightarrow> exn"
  py_repr :: "json \<Rightarrow> string"
  http_error_msg :: "response \<Rightarrow> string"
  builtin_error_msg :: "exc_class \<Rightarrow> string \<Rightarrow> json \<Rightarrow> string"

definition py_str :: "pylib \<Rightarrow> json \<Rightarrow> string" where
  "py_str lib v = (case v of JStr s \<Rightarrow> s | _ \<Rightarrow> py_repr lib v)"

definition builtin_error :: "pylib \<Rightarrow> exc_class \<Rightarrow> string \<Rightarrow> json \<Rightarrow> exn" where
  "builtin_error lib c opn v = Exn c (builtin_error_msg lib c opn v) None"

text \<open>\<^verbatim>\<open>response.raise_for_status()\<close>: an \<^verbatim>\<open>HTTPError\<close> for a 4xx or 5xx status.\<close>

definition raise_for_status :: "pylib \<Rightarrow> response \<Rightarrow> exn option" where
  "raise_for_status lib r =
     (if 400 \<le> status_code r \<and> status_code r < 600
      then Some (Exn HTTPError (http_error_msg lib r) (Some r)) else None)"

definition response_json :: "pylib \<Rightarrow> response \<Rightarrow> exn + json" where
  "response_json lib r = (case body_json r of None \<Rightarrow> Inl (json_error lib r) | Some v \<Rightarrow> Inr v)"

datatype payload = FormData "(string \<times> string) list" | JsonBody json

record request =
  req_url :: string
  req_headers :: "(string \<times> string) list"
  req_payload :: payload
  req_timeout :: nat

datatype outcome = Raises exn | Responds response

text \<open>
  The world: the successive readings of \<^verbatim>\<open>time.time()\<close> and how many were taken, the
  outcome of each call of \<^verbatim>\<open>requests.post\<close> in the order of the calls, and the requests
  sent so far (oldest first). A reading is a finite float; readings are compared and
  added as the real numbers they denote.
\<close>

record world =
  clock :: "nat \<Rightarrow> real"
  ticks :: nat
  reply :: "nat \<Rightarrow> outcome"
  sent :: "request list"

definition time_time :: "world \<Rightarrow> real \<times> world" where
  "time_time w = (clock w (ticks w), w\<lparr>ticks := Suc (ticks w)\<rparr>)"

definition requests_post :: "request \<Rightarrow> world \<Rightarrow> outcome \<times> world" where
  "requests_post rq w = (reply w (length (sent w)), w\<lparr>sent := sent w @ [rq]\<rparr>)"

section \<open>The client and its token manager\<close>

record client =
  api_key :: string
  project_id :: string
  url :: string
  model_id :: string
  access_token :: json
  token_expiry :: real

text \<open>\<^verbatim>\<open>s.rstrip('/')\<close>\<close>

definition rstrip_slash :: "string \<Rightarrow> string" where
  "rstrip_slash s = rev (dropWhile (\<lambda>c. c = CHR ''/'') (rev s))"

text \<open>\<^verbatim>\<open>WatsonxDirectAPI.__init__\<close>\<close>

definition init :: "string \<Rightarrow> string \<Rightarrow> string \<Rightarrow> string \<Rightarrow> client" where
  "init k p u m = \<lparr>api_key = k, project_id = p, url = rstrip_slash u, model_id = m,
     access_token = JNull, token_expiry = 0\<rparr>"

definition identity_url :: string where
  "identity_url = ''https://iam.cloud.ibm.com/identity/token''"

definition identity_request :: "client \<Rightarrow> request" where
  "identity_request self =
     \<lparr>req_url = identity_url,
      req_headers = [(''Content-Type'', ''application/x-www-form-urlencoded''),
                     (''Accept'', ''application/json'')],
      req_payload = FormData [(''grant_type'', ''urn:ibm:params:oauth:grant-type:apikey''),
                              (''apikey'', api_key self)],
      req_timeout = 30\<rparr>"

text \<open>
  The guard \<^verbatim>\<open>self.access_token and time.time() < self.token_expiry\<close> of
  \<^verbatim>\<open>_get_access_token\<close>: the clock is read only when the cached token is truthy.
\<close>

definition token_cached :: "client \<Rightarrow> world \<Rightarrow> bool \<times> world" where
  "token_cached self w =
     (if truthy (access_token self)
      then (let (t, w') = time_time w in (t < token_expiry self, w'))
      else (False, w))"

text \<open>
  The body of the \<^verbatim>\<open>try\<close> of \<^verbatim>\<open>_get_access_token\<close>: the result or the exception raised,
  with the client and the world as they are at that point. \<^verbatim>\<open>token_data.get\<close> exists
  only on a dictionary.
\<close>

definition fetch_token :: "pylib \<Rightarrow> client \<Rightarrow> world \<Rightarrow> (exn + json) \<times> client \<times> world" where
  "fetch_token lib self w =
     (let (out, w1) = requests_post (identity_request self) w in
      case out of
        Raises e \<Rightarrow> (Inl e, self, w1)
      | Responds r \<Rightarrow>
          (case raise_for_status lib r of
             Some e \<Rightarrow> (Inl e, self, w1)
           | None \<Rightarrow>
               (case response_json lib r of
                  Inl e \<Rightarrow> (Inl e, self, w1)
                | Inr token_data \<Rightarrow>
                    (case token_data of
                       JObj kvs \<Rightarrow>
                         (let self1 = self\<lparr>access_token := dict_get kvs ''access_token''\<rparr>;
                              (t, w2) = time_time w1;
                              self2 = self1\<lparr>token_expiry := t + 3000\<rparr>
                          in if \<not> truthy (access_token self2)
                             then (Inl (Exn ValueError ''No access token received from IBM IAM'' None),
                                   self2, w2)
                             else (Inr (access_token self2), self2, w2))
                     | _ \<Rightarrow> (Inl (builtin_error lib AttributeError ''get'' token_data), self, w1)))))"

text \<open>
  The \<^verbatim>\<open>except\<close> clauses of \<^verbatim>\<open>_get_access_token\<close>, in their order. An exception of
  neither class passes through. The calls of \<^verbatim>\<open>logging.error\<close>, here and in
  \<^verbatim>\<open>classify_requirements\<close>, change nothing the client reads and are left out.
\<close>

definition auth_except :: "exn \<Rightarrow> exn" where
  "auth_except e =
     (if is_RequestException e then Exn PlainException (''Authentication failed: '' @ msg e) None
      else if is_JSONDecodeError e
      then Exn PlainException ''Invalid response from authentication service'' None
      else e)"

text \<open>\<^verbatim>\<open>WatsonxDirectAPI._get_access_token\<close>\<close>

definition get_access_token :: "pylib \<Rightarrow> client \<Rightarrow> world \<Rightarrow> (exn + json) \<times> client \<times> world" where
  "get_access_token lib self w =
     (case token_cached self w of
        (True, w1) \<Rightarrow> (Inr (access_token self), self, w1)
      | (False, w1) \<Rightarrow>
          (case fetch_token lib self w1 of
             (Inl e, self', w2) \<Rightarrow> (Inl (auth_except e), self', w2)
           | (Inr v, self', w2) \<Rightarrow> (Inr v, self', w2)))"

section \<open>Text generation\<close>

definition generation_url :: "client \<Rightarrow> string" where
  "generation_url self = url self @ ''/ml/v1-beta/generation/text?version=2023-05-29''"

text \<open>The dictionary \<^verbatim>\<open>parameters\<close> of \<^verbatim>\<open>generate_text\<close>.\<close>

definition generation_parameters :: "string \<Rightarrow> int \<Rightarrow> pyfloat \<Rightarrow> json" where
  "generation_parameters type_of_request max_tokens temperature =
     JObj [(''decoding_method'', JStr ''greedy''),
           (''max_new_tokens'', JInt max_tokens),
           (''min_new_tokens'', JInt 1),
           (''stop_sequences'', JArr []),
           (''temperature'',
              JFloat (if type_of_request = ''classify'' then Finite (1 / 10) else temperature)),
           (''top_k'', JInt 50),
           (''top_p'', JInt 1)]"

text \<open>The dictionary \<^verbatim>\<open>payload\<close> of \<^verbatim>\<open>generate_text\<close>.\<close>

definition generation_payload :: "client \<Rightarrow> string \<Rightarrow> json \<Rightarrow> json" where
  "generation_payload self prompt parameters =
     JObj [(''model_id'', JStr (model_id self)),
           (''input'', JStr prompt),
           (''parameters'', parameters),
           (''project_id'', JStr (project_id self))]"

definition generation_request ::
  "pylib \<Rightarrow> client \<Rightarrow> json \<Rightarrow> string \<Rightarrow> string \<Rightarrow> int \<Rightarrow> pyfloat \<Rightarrow> request" where
  "generation_request lib self token prompt type_of_request max_tokens temperature =
     \<lparr>req_url = generation_url self,
      req_headers = [(''Authorization'', ''Bearer '' @ py_str lib token),
                     (''Content-Type'', ''application/json''),
                     (''Accept'', ''application/json'')],
      req_payload = JsonBody (generation_payload self prompt
                      (generation_parameters type_of_request max_tokens temperature)),
      req_timeout = 60\<rparr>"

text \<open>
  The operations \<^verbatim>\<open>generate_text\<close> applies to the decoded reply, on every value the
  decoder can produce: \<^verbatim>\<open>'results' in x\<close>, \<^verbatim>\<open>x[k]\<close> for a string key, \<^verbatim>\<open>len(x)\<close> and
  \<^verbatim>\<open>x[0]\<close>. The keys of a decoded dictionary are strings, so the key \<^verbatim>\<open>0\<close> is never
  present.
\<close>

definition contains_results :: "pylib \<Rightarrow> json \<Rightarrow> exn + bool" where
  "contains_results lib x =
     (case x of
        JObj kvs \<Rightarrow> Inr (map_of kvs ''results'' \<noteq> None)
      | JArr xs \<Rightarrow> Inr (JStr ''results'' \<in> set xs)
      | JStr s \<Rightarrow> Inr (sublist ''results'' s)
      | _ \<Rightarrow> Inl (builtin_error lib TypeError ''in'' x))"

definition getitem_key :: "pylib \<Rightarrow> json \<Rightarrow> string \<Rightarrow> exn + json" where
  "getitem_key lib x k =
     (case x of
        JObj kvs \<Rightarrow>
          (case map_of kvs k of
             Some v \<Rightarrow> Inr v
           | None \<Rightarrow> Inl (builtin_error lib KeyError ''getitem'' (JStr k)))
      | _ \<Rightarrow> Inl (builtin_error lib TypeError ''getitem'' x))"

definition py_len :: "pylib \<Rightarrow> json \<Rightarrow> exn + nat" where
  "py_len lib x =
     (case x of
        JStr s \<Rightarrow> Inr (length s)
      | JArr xs \<Rightarrow> Inr (length xs)
      | JObj kvs \<Rightarrow> Inr (length kvs)
      | _ \<Rightarrow> Inl (builtin_error lib TypeError ''len'' x))"

definition getitem_first :: "pylib \<Rightarrow> json \<Rightarrow> exn + json" where
  "getitem_first lib x =
     (case x of
        JArr (v # _) \<Rightarrow> Inr v
      | JArr [] \<Rightarrow> Inl (builtin_error lib IndexError ''getitem'' x)
      | JStr (c # _) \<Rightarrow> Inr (JStr [c])
      | JStr [] \<Rightarrow> Inl (builtin_error lib IndexError ''getitem'' x)
      | JObj _ \<Rightarrow> Inl (builtin_error lib KeyError ''getitem'' (JInt 0))
      | _ \<Rightarrow> Inl (builtin_error lib TypeError ''getitem'' x))"

text \<open>
  The last statement of the \<^verbatim>\<open>try\<close> of \<^verbatim>\<open>generate_text\<close>: the conditional on the
  decoded \<^verbatim>\<open>result\<close>. \<^verbatim>\<open>result['results']\<close> is evaluated for the test and again for
  the return, with the same value.
\<close>

definition extract_generated :: "pylib \<Rightarrow> json \<Rightarrow> exn + json" where
  "extract_generated lib result =
     (let unexpected =
        JStr (''Error: Unexpected response format from Watsonx API: '' @ py_str lib result)
      in case contains_results lib result of
           Inl e \<Rightarrow> Inl e
         | Inr False \<Rightarrow> Inr unexpected
         | Inr True \<Rightarrow>
             (case getitem_key lib result ''results'' of
                Inl e \<Rightarrow> Inl e
              | Inr results \<Rightarrow>
                  (case py_len lib results of
                     Inl e \<Rightarrow> Inl e
                   | Inr n \<Rightarrow>
                       if n > 0
                       then (case getitem_first lib results of
                               Inl e \<Rightarrow> Inl e
                             | Inr first \<Rightarrow> getitem_key lib first ''generated_text'')
                       else Inr unexpected)))"

text \<open>The body of the \<^verbatim>\<open>try\<close> of \<^verbatim>\<open>generate_text\<close>.\<close>

definition generate_text_try ::
  "pylib \<Rightarrow> client \<Rightarrow> string \<Rightarrow> string \<Rightarrow> int \<Rightarrow> pyfloat \<Rightarrow> world
     \<Rightarrow> (exn + json) \<times> client \<times> world" where
  "generate_text_try lib self prompt type_of_request max_tokens temperature w =
     (case get_access_token lib self w of
        (Inl e, self1, w1) \<Rightarrow> (Inl e, self1, w1)
      | (Inr token, self1, w1) \<Rightarrow>
          (let (out, w2) =
                 requests_post (generation_request lib self1 token prompt type_of_request
                                  max_tokens temperature) w1
           in case out of
                Raises e \<Rightarrow> (Inl e, self1, w2)
              | Responds r \<Rightarrow>
                  (case raise_for_status lib r of
                     Some e \<Rightarrow> (Inl e, self1, w2)
                   | None \<Rightarrow>
                       (case response_json lib r of
                          Inl e \<Rightarrow> (Inl e, self1, w2)
                        | Inr result \<Rightarrow> (extract_generated lib result, self1, w2)))))"

text \<open>
  The \<^verbatim>\<open>except\<close> clauses of \<^verbatim>\<open>generate_text\<close>, in their order; the last one catches
  every \<^verbatim>\<open>Exception\<close>. The detail of an \<^verbatim>\<open>HTTPError\<close> is the decoded body of its
  response, or the raw body when decoding raises.
\<close>

definition http_error_detail :: "pylib \<Rightarrow> exn \<Rightarrow> string" where
  "http_error_detail lib e =
     (case resp e of
        None \<Rightarrow> []
      | Some r \<Rightarrow>
          (case response_json lib r of
             Inr error_detail \<Rightarrow> '' - Details: '' @ py_str lib error_detail
           | Inl _ \<Rightarrow> '' - Response: '' @ body_text r))"

definition generate_text_except :: "pylib \<Rightarrow> client \<Rightarrow> exn \<Rightarrow> string" where
  "generate_text_except lib self e =
     (if is_HTTPError e then ''HTTP error occurred: '' @ msg e @ http_error_detail lib e
      else if is_ConnectionError e
      then ''Connection error: '' @ msg e @ '' - Check network or Watsonx URL: '' @ url self
      else if is_Timeout e
      then ''Timeout error: '' @ msg e @ '' - Watsonx API took too long to respond''
      else if is_JSONDecodeError e
      then ''JSON decode error: '' @ msg e @ '' - Could not parse Watsonx API response''
      else ''Unexpected error during API call: '' @ msg e)"

text \<open>
  \<^verbatim>\<open>WatsonxDirectAPI.generate_text\<close>. The defaults of the source are
  \<^verbatim>\<open>type_of_request="general"\<close>, \<^verbatim>\<open>max_tokens=1000\<close> and \<^verbatim>\<open>temperature=0.7\<close>.
\<close>

definition generate_text ::
  "pylib \<Rightarrow> client \<Rightarrow> string \<Rightarrow> string \<Rightarrow> int \<Rightarrow> pyfloat \<Rightarrow> world \<Rightarrow> json \<times> client \<times> world" where
  "generate_text lib self prompt type_of_request max_tokens temperature w =
     (case generate_text_try lib self prompt type_of_request max_tokens temperature w of
        (Inr v, self1, w1) \<Rightarrow> (v, self1, w1)
      | (Inl e, self1, w1) \<Rightarrow> (JStr (generate_text_except lib self1 e), self1, w1))"

text \<open>The requests sent to the identity endpoint so far.\<close>

definition identity_posts :: "world \<Rightarrow> request list" where
  "identity_posts w = filter (\<lambda>rq. req_url rq = identity_url) (sent w)"


section \<open>The operations of the client\<close>

text \<open>The f-string \<^verbatim>\<open>prompt\<close> of \<^verbatim>\<open>generate_code\<close>.\<close>

definition code_prompt :: "string \<Rightarrow> string \<Rightarrow> string" where
  "code_prompt requirements language =
       ''You are an expert software developer. Generate high-quality, production-ready ''
       @ language
       @ '' code based on the following requirements.\<newline>''
       @ ''\<newline>''
       @ ''Requirements: ''
       @ requirements
       @ ''\<newline>''
       @ ''\<newline>''
       @ ''Please provide:\<newline>''
       @ ''1. Clean, well-documented code\<newline>''
       @ ''2. Proper error handling\<newline>''
       @ ''3. Best practices implementation\<newline>''
       @ ''4. Comments explaining key functionality\<newline>''
       @ ''\<newline>''
       @ ''Generate only the code with appropriate comments. Do not include explanations outside the code.\<newline>''
       @ ''\<newline>''
       @ ''Code:''"

text \<open>The f-string \<^verbatim>\<open>prompt\<close> of \<^verbatim>\<open>generate_tests\<close>.\<close>

definition tests_prompt :: "string \<Rightarrow> string \<Rightarrow> string" where
  "tests_prompt code framework =
       ''You are a QA engineer. Generate comprehensive test cases using ''
       @ framework
       @ '' for the following code:\<newline>''
       @ ''\<newline>''
       @ ''Code:\<newline>''
       @ code
       @ ''\<newline>''
       @ ''\<newline>''
       @ ''Generate:\<newline>''
       @ ''1. Unit tests covering all functions\<newline>''
       @ ''2. Edge cases and error handling tests\<newline>''
       @ ''3. Integration tests if applicable\<newline>''
       @ ''4. Test data and fixtures\<newline>''
       @ ''\<newline>''
       @ ''Provide only the test code with appropriate imports and setup.\<newline>''
       @ ''\<newline>''
       @ ''Test Code:''"

text \<open>The f-string \<^verbatim>\<open>prompt\<close> of \<^verbatim>\<open>fix_bugs\<close>.\<close>

definition fix_prompt :: "string \<Rightarrow> string \<Rightarrow> string" where
  "fix_prompt code error_description =
       ''You are a senior software engineer. Fix the bugs in the following code:\<newline>''
       @ ''\<newline>''
       @ ''Code with bugs:\<newline>''
       @ code
       @ ''\<newline>''
       @ ''\<newline>''
       @ ''Error/Issue description:\<newline>''
       @ error_description
       @ ''\<newline>''
       @ ''\<newline>''
       @ ''Provide:\<newline>''
       @ ''1. Fixed code with corrections highlighted in comments\<newline>''
       @ ''2. Brief explanation of what was wrong\<newline>''
       @ ''3. Best practices to prevent similar issues\<newline>''
       @ ''\<newline>''
       @ ''Focus on providing the corrected code with clear comments indicating fixes.\<newline>''
       @ ''\<newline>''
       @ ''Fixed Code:''"

text \<open>The f-string \<^verbatim>\<open>prompt\<close> of \<^verbatim>\<open>summarize_code\<close>.\<close>

definition summarize_prompt :: "string \<Rightarrow> string" where
  "summarize_prompt code =
       ''You are a technical documentation expert. Analyze and summarize the following code:\<newline>''
       @ ''\<newline>''
       @ ''Code:\<newline>''
       @ code
       @ ''\<newline>''
       @ ''\<newline>''
       @ ''Provide a comprehensive analysis including:\<newline>''
       @ ''1. High-level summary of functionality\<newline>''
       @ ''2. Key components and their purposes\<newline>''
       @ ''3. Input/output description\<newline>''
       @ ''4. Dependencies and requirements\<newline>''
       @ ''5. Potential improvements or concerns\<newline>''
       @ ''\<newline>''
       @ ''Format your response in clear sections with headings.\<newline>''
       @ ''\<newline>''
       @ ''Analysis:''"

text \<open>The f-string \<^verbatim>\<open>prompt\<close> of \<^verbatim>\<open>classify_requirements\<close>.\<close>

definition classify_prompt :: "string \<Rightarrow> string" where
  "classify_prompt requirements =
       ''You are a business analyst. Classify the following requirements into structured categories:\<newline>''
       @ ''\<newline>''
       @ ''Requirements:\<newline>''
       @ requirements
       @ ''\<newline>''
       @ ''\<newline>''
       @ ''Analyze and classify into:\<newline>''
       @ ''1. Functional Requirements\<newline>''
       @ ''2. Non-functional Requirements\<newline>''
       @ ''3. Technical Requirements\<newline>''
       @ ''4. Business Requirements\<newline>''
       @ ''5. Priority Level (High/Medium/Low)\<newline>''
       @ ''6. Complexity Estimate (Simple/Medium/Complex)\<newline>''
       @ ''\<newline>''
       @ ''Format the output as a valid JSON object with these exact keys:\<newline>''
       @ ''- \"Functional Requirements\": [list of items]\<newline>''
       @ ''- \"Non-functional Requirements\": [list of items]\<newline>''
       @ ''- \"Technical Requirements\": [list of items]\<newline>''
       @ ''- \"Business Requirements\": [list of items]\<newline>''
       @ ''- \"Priority Level\": \"High/Medium/Low\"\<newline>''
       @ ''- \"Complexity Estimate\": \"Simple/Medium/Complex\"\<newline>''
       @ ''\<newline>''
       @ ''Respond with only the JSON object, no additional text.\<newline>''
       @ ''\<newline>''
       @ ''JSON:''"

text \<open>The f-string \<^verbatim>\<open>prompt\<close> of \<^verbatim>\<open>chat_assistant\<close>.\<close>

definition chat_prompt :: "string \<Rightarrow> string \<Rightarrow> string" where
  "chat_prompt context_section query =
       ''You are a helpful AI assistant specialized in software development and programming.\<newline>''
       @ ''\<newline>''
       @ context_section
       @ ''\<newline>''
       @ ''\<newline>''
       @ ''User Query: ''
       @ query
       @ ''\<newline>''
       @ ''\<newline>''
       @ ''Provide a helpful, accurate response that:\<newline>''
       @ ''1. Directly answers the question\<newline>''
       @ ''2. Provides code examples if relevant\<newline>''
       @ ''3. Explains technical concepts clearly\<newline>''
       @ ''4. Suggests best practices\<newline>''
       @ ''5. Keeps responses concise and actionable\<newline>''
       @ ''\<newline>''
       @ ''Response:''"

text \<open>\<^verbatim>\<open>WatsonxDirectAPI.generate_code\<close> (default \<^verbatim>\<open>language="python"\<close>)\<close>

definition generate_code ::
  "pylib \<Rightarrow> client \<Rightarrow> string \<Rightarrow> string \<Rightarrow> world \<Rightarrow> json \<times> client \<times> world" where
  "generate_code lib self requirements language w =
     generate_text lib self (code_prompt requirements language) ''code'' 1000 (Finite (7 / 10)) w"

text \<open>\<^verbatim>\<open>WatsonxDirectAPI.generate_tests\<close> (default \<^verbatim>\<open>framework="pytest"\<close>)\<close>

definition generate_tests ::
  "pylib \<Rightarrow> client \<Rightarrow> string \<Rightarrow> string \<Rightarrow> world \<Rightarrow> json \<times> client \<times> world" where
  "generate_tests lib self code framework w =
     generate_text lib self (tests_prompt code framework) ''test'' 1000 (Finite (7 / 10)) w"

text \<open>\<^verbatim>\<open>WatsonxDirectAPI.fix_bugs\<close>\<close>

definition fix_bugs ::
  "pylib \<Rightarrow> client \<Rightarrow> string \<Rightarrow> string \<Rightarrow> world \<Rightarrow> json \<times> client \<times> world" where
  "fix_bugs lib self code error_description w =
     generate_text lib self (fix_prompt code error_description) ''fix'' 1000 (Finite (7 / 10)) w"

text \<open>\<^verbatim>\<open>WatsonxDirectAPI.summarize_code\<close>\<close>

definition summarize_code :: "pylib \<Rightarrow> client \<Rightarrow> string \<Rightarrow> world \<Rightarrow> json \<times> client \<times> world" where
  "summarize_code lib self code w =
     generate_text lib self (summarize_prompt code) ''summarize'' 1000 (Finite (7 / 10)) w"

text \<open>
  \<^verbatim>\<open>WatsonxDirectAPI.chat_assistant\<close> of \<^verbatim>\<open>watsonx_direct_api.py\<close> (default
  \<^verbatim>\<open>context=""\<close>): \<^verbatim>\<open>context_section\<close> is assigned before the prompt is built.
\<close>

definition chat_assistant ::
  "pylib \<Rightarrow> client \<Rightarrow> string \<Rightarrow> string \<Rightarrow> world \<Rightarrow> json \<times> client \<times> world" where
  "chat_assistant lib self query context w =
     (let context_section = (if context \<noteq> [] then ''Context: '' @ context @ ''\<newline>'' else [])
      in generate_text lib self (chat_prompt context_section query) ''chat'' 1000 (Finite (7 / 10)) w)"

subsection \<open>Classification\<close>

text \<open>
  \<^verbatim>\<open>s.find(c)\<close> and \<^verbatim>\<open>s.rfind(c)\<close> for a one-character \<^verbatim>\<open>c\<close>: the lowest and the highest
  index where it stands, \<open>-1\<close> when it does not occur. \<^verbatim>\<open>s[a:b]\<close> is used with
  \<open>0 \<le> a < b\<close> only.
\<close>

fun str_find :: "string \<Rightarrow> char \<Rightarrow> int" where
  "str_find [] c = -1"
| "str_find (x # xs) c =
     (if x = c then 0 else (let r = str_find xs c in if r < 0 then -1 else r + 1))"

fun str_rfind :: "string \<Rightarrow> char \<Rightarrow> int" where
  "str_rfind [] c = -1"
| "str_rfind (x # xs) c =
     (let r = str_rfind xs c in if 0 \<le> r then r + 1 else if x = c then 0 else -1)"

definition str_slice :: "string \<Rightarrow> int \<Rightarrow> int \<Rightarrow> string" where
  "str_slice s a b = take (nat (b - a)) (drop (nat a) s)"

text \<open>
  The body of the \<^verbatim>\<open>try\<close> of \<^verbatim>\<open>classify_requirements\<close>, on the value
  \<^verbatim>\<open>generate_text\<close> returned. Only a string has \<^verbatim>\<open>find\<close>.
\<close>

definition classify_try :: "pylib \<Rightarrow> json \<Rightarrow> exn + json" where
  "classify_try lib response =
     (case response of
        JStr s \<Rightarrow>
          (let json_start = str_find s CHR ''{'';
               json_end = str_rfind s CHR ''}'' + 1
           in if json_start \<ge> 0 \<and> json_end > json_start
              then json_loads lib (str_slice s json_start json_end)
              else Inr (JObj [(''error'', JStr ''No valid JSON found in response''),
                              (''raw_response'', response)]))
      | _ \<Rightarrow> Inl (builtin_error lib AttributeError ''find'' response))"

text \<open>The \<^verbatim>\<open>try\<close> with its two \<^verbatim>\<open>except\<close> clauses.\<close>

definition classify_parse :: "pylib \<Rightarrow> json \<Rightarrow> json" where
  "classify_parse lib response =
     (case classify_try lib response of
        Inr v \<Rightarrow> v
      | Inl e \<Rightarrow>
          if is_JSONDecodeError e
          then JObj [(''error'', JStr ''Failed to parse classification''),
                     (''raw_response'', response)]
          else JObj [(''error'', JStr (msg e)), (''raw_response'', response)])"

text \<open>\<^verbatim>\<open>WatsonxDirectAPI.classify_requirements\<close>\<close>

definition classify_requirements ::
  "pylib \<Rightarrow> client \<Rightarrow> string \<Rightarrow> world \<Rightarrow> json \<times> client \<times> world" where
  "classify_requirements lib self requirements w =
     (let (response, self1, w1) =
            generate_text lib self (classify_prompt requirements) ''classify'' 1000
              (Finite (1 / 10)) w
      in (classify_parse lib response, self1, w1))"

subsection \<open>The chat assistant of the library-integration module\<close>

text \<open>
  The class \<^verbatim>\<open>WatsonxDirectAPI\<close> of \<^verbatim>\<open>watsonx_integration.py\<close> repeats the class above
  line for line, except in \<^verbatim>\<open>chat_assistant\<close>, where the assignment to
  \<^verbatim>\<open>context_section\<close> follows the prompt. A name assigned anywhere in a function is a
  local of that function: its slot is empty until the assignment runs, and reading an
  empty slot raises \<^verbatim>\<open>UnboundLocalError\<close>, a subclass of \<^verbatim>\<open>NameError\<close>.
\<close>

definition load_local :: "pylib \<Rightarrow> string \<Rightarrow> 'a option \<Rightarrow> exn + 'a" where
  "load_local lib name slot =
     (case slot of
        None \<Rightarrow> Inl (builtin_error lib UnboundLocalError ''load'' (JStr name))
      | Some v \<Rightarrow> Inr v)"

definition chat_assistant_integration ::
  "pylib \<Rightarrow> client \<Rightarrow> string \<Rightarrow> string \<Rightarrow> world \<Rightarrow> (exn + json) \<times> client \<times> world" where
  "chat_assistant_integration lib self query context w =
     (let context_section = None
      in case load_local lib ''context_section'' context_section of
           Inl e \<Rightarrow> (Inl e, self, w)
         | Inr section_text \<Rightarrow>
             (let prompt = chat_prompt section_text query;
                  context_section =
                    Some (if context \<noteq> [] then ''Context: '' @ context @ ''\<newline>'' else []);
                  (v, self1, w1) = generate_text lib self prompt ''chat'' 1000 (Finite (7 / 10)) w
              in (Inr v, self1, w1)))"

section \<open>Vocabulary of the properties\<close>

text \<open>
  The requests a call has sent: those of the later world that the earlier one does not
  have. The decoding temperature and the keys a request body carries.
\<close>

definition sent_since :: "world \<Rightarrow> world \<Rightarrow> request list" where
  "sent_since w w' = drop (length (sent w)) (sent w')"

definition generation_posts :: "request list \<Rightarrow> request list" where
  "generation_posts rqs = filter (\<lambda>rq. req_url rq \<noteq> identity_url) rqs"

definition request_temperature :: "request \<Rightarrow> json option" where
  "request_temperature rq =
     (case req_payload rq of
        JsonBody (JObj kvs) \<Rightarrow>
          (case map_of kvs ''parameters'' of
             Some (JObj ps) \<Rightarrow> map_of ps ''temperature''
           | _ \<Rightarrow> None)
      | _ \<Rightarrow> None)"

text \<open>The temperatures of the generation requests sent between two worlds, in order.\<close>

definition generation_temperatures :: "world \<Rightarrow> world \<Rightarrow> json option list" where
  "generation_temperatures w w' = map request_temperature (generation_posts (sent_since w w'))"

definition body_keys :: "request \<Rightarrow> string list" where
  "body_keys rq = (case req_payload rq of JsonBody (JObj kvs) \<Rightarrow> map fst kvs | _ \<Rightarrow> [])"

definition body_field :: "request \<Rightarrow> string \<Rightarrow> json option" where
  "body_field rq k = (case req_payload rq of JsonBody (JObj kvs) \<Rightarrow> map_of kvs k | _ \<Rightarrow> None)"

text \<open>
  The token a reply of the identity endpoint delivers to \<^verbatim>\<open>_get_access_token\<close>: the
  \<^verbatim>\<open>access_token\<close> field of a reply that passes \<^verbatim>\<open>raise_for_status\<close> and decodes to a
  dictionary. \<open>received_tokens\<close> lists the tokens delivered so far.
\<close>

definition token_of_outcome :: "outcome \<Rightarrow> json option" where
  "token_of_outcome out =
     (case out of
        Raises _ \<Rightarrow> None
      | Responds r \<Rightarrow>
          if 400 \<le> status_code r \<and> status_code r < 600 then None
          else (case body_json r of
                  Some (JObj kvs) \<Rightarrow> Some (dict_get kvs ''access_token'')
                | _ \<Rightarrow> None))"

definition received_tokens :: "world \<Rightarrow> json list" where
  "received_tokens w =
     List.map_filter
       (\<lambda>i. if req_url (sent w ! i) = identity_url then token_of_outcome (reply w i) else None)
       [0..<length (sent w)]"

text \<open>The cached token is \<^verbatim>\<open>None\<close> or one of the tokens delivered so far.\<close>

definition token_known :: "client \<Rightarrow> world \<Rightarrow> bool" where
  "token_known self w = (access_token self = JNull \<or> access_token self \<in> set (received_tokens w))"

text \<open>
  The states a client can be in: created by \<^verbatim>\<open>__init__\<close>, then used through
  \<^verbatim>\<open>_get_access_token\<close> and \<^verbatim>\<open>generate_text\<close> (every other operation is one call of
  \<^verbatim>\<open>generate_text\<close>), in any world.
\<close>

inductive reachable :: "pylib \<Rightarrow> client \<Rightarrow> world \<Rightarrow> bool" for lib :: pylib where
  created: "reachable lib (init k p u m) w"
| token: "reachable lib self w \<Longrightarrow> get_access_token lib self w = (r, self', w')
          \<Longrightarrow> reachable lib self' w'"
| generate: "reachable lib self w \<Longrightarrow> generate_text lib self prompt ty mt tp w = (v, self', w')
          \<Longrightarrow> reachable lib self' w'"

text \<open>
  The two situations in which the token manager is said to fail: the request to the
  identity endpoint fails at transport or HTTP level (it raises, or it is answered with a
  4xx or 5xx status), or the reply returns no token: its body does not decode to a
  dictionary, or the dictionary's \<^verbatim>\<open>access_token\<close> is missing or empty.
\<close>

definition transport_failure :: "outcome \<Rightarrow> bool" where
  "transport_failure out =
     (case out of
        Raises _ \<Rightarrow> True
      | Responds r \<Rightarrow> 400 \<le> status_code r \<and> status_code r < 600)"

definition no_token_returned :: "outcome \<Rightarrow> bool" where
  "no_token_returned out =
     (case out of
        Raises _ \<Rightarrow> False
      | Responds r \<Rightarrow>
          (case body_json r of
             Some (JObj kvs) \<Rightarrow> \<not> truthy (dict_get kvs ''access_token'')
           | _ \<Rightarrow> True))"

section \<open>Sample library, client and worlds\<close>

text \<open>
  Concrete inputs on which the model is evaluated. The sample decoder knows one document;
  the identity endpoint of the sample world answers with a token and a lifetime, the
  generation endpoint with a generated text.
\<close>

definition example_lib :: pylib where
  "example_lib =
     \<lparr>json_loads = (\<lambda>s. if s = ''{\"Priority Level\": \"High\"}''
                          then Inr (JObj [(''Priority Level'', JStr ''High'')])
                          else Inl (Exn JSONDecodeError ''Expecting value'' None)),
      json_error = (\<lambda>r. Exn RequestsJSONDecodeError ''Expecting value'' None),
      py_repr = (\<lambda>v. if v = JObj [(''error'', JStr ''boom'')] then ''{'error': 'boom'}''
                      else ''<object>''),
      http_error_msg = (\<lambda>r. ''Server Error''),
      builtin_error_msg = (\<lambda>c opn v. ''unsupported operation'')\<rparr>"

definition example_client :: client where
  "example_client =
     init ''key'' ''project-1'' ''https://eu-de.ml.cloud.ibm.com/'' ''ibm/granite-3-3-8b-instruct''"

definition token_reply :: response where
  "token_reply =
     \<lparr>status_code = 200,
      body_text = ''{\"access_token\": \"tok-1\", \"expires_in\": 3600}'',
      body_json = Some (JObj [(''access_token'', JStr ''tok-1''), (''expires_in'', JInt 3600)])\<rparr>"

definition text_reply :: response where
  "text_reply =
     \<lparr>status_code = 200,
      body_text = ''{\"results\": [{\"generated_text\": \"ok\"}]}'',
      body_json = Some (JObj [(''results'', JArr [JObj [(''generated_text'', JStr ''ok'')]])])\<rparr>"

definition error_reply :: response where
  "error_reply =
     \<lparr>status_code = 500,
      body_text = ''{\"error\": \"boom\"}'',
      body_json = Some (JObj [(''error'', JStr ''boom'')])\<rparr>"

definition noise_reply :: response where
  "noise_reply =
     \<lparr>status_code = 200,
      body_text = ''{\"results\": [{\"generated_text\": \"noise {'' @ [CHR 0x5C] @ ''\"Priority Level''
                  @ [CHR 0x5C] @ ''\": '' @ [CHR 0x5C] @ ''\"High'' @ [CHR 0x5C] @ ''\"} noise\"}]}'',
      body_json = Some (JObj [(''results'', JArr [JObj [(''generated_text'',
                    JStr ''noise {\"Priority Level\": \"High\"} noise'')]])])\<rparr>"

definition no_token_reply :: response where
  "no_token_reply =
     \<lparr>status_code = 200, body_text = ''{\"expires_in\": 3600}'',
      body_json = Some (JObj [(''expires_in'', JInt 3600)])\<rparr>"

definition list_reply :: response where
  "list_reply = \<lparr>status_code = 200, body_text = ''[]'', body_json = Some (JArr [])\<rparr>"

definition html_reply :: response where
  "html_reply = \<lparr>status_code = 200, body_text = ''<html>'', body_json = None\<rparr>"

text \<open>
  A world that starts at time 1000 with a clock advancing by one at each reading, where
  the first request has outcome \<open>a\<close> and every later one outcome \<open>b\<close>.
\<close>

definition sample_world :: "outcome \<Rightarrow> outcome \<Rightarrow> world" where
  "sample_world a b =
     \<lparr>clock = (\<lambda>n. 1000 + real n), ticks = 0, reply = (\<lambda>n. if n = 0 then a else b),
      sent = []\<rparr>"

definition example_world :: world where
  "example_world = sample_world (Responds token_reply) (Responds text_reply)"

section \<open>Properties of the token manager\<close>

lemma truthy_not_none: "truthy v \<Longrightarrow> v \<noteq> JNull \<and> v \<noteq> JStr []"
  by (cases v) auto


lemma generation_url_not_identity: "generation_url self \<noteq> identity_url"
proof
  assume "generation_url self = identity_url"
  then have "last (generation_url self) = last identity_url" by simp
  then show False by (simp add: generation_url_def identity_url_def)
qed

lemma token_cached_hit:
  "truthy (access_token self) \<Longrightarrow> clock w (ticks w) < token_expiry self
   \<Longrightarrow> token_cached self w = (True, w\<lparr>ticks := Suc (ticks w)\<rparr>)"
  by (simp add: token_cached_def time_time_def)

lemma get_access_token_cached:
  "truthy (access_token self) \<Longrightarrow> clock w (ticks w) < token_expiry self
   \<Longrightarrow> get_access_token lib self w = (Inr (access_token self), self, w\<lparr>ticks := Suc (ticks w)\<rparr>)"
  by (simp add: get_access_token_def token_cached_hit)

lemma token_cached_world:
  "token_cached self w = (b, w1) \<Longrightarrow> sent w1 = sent w \<and> reply w1 = reply w \<and> clock w1 = clock w"
  by (auto simp: token_cached_def time_time_def split: if_splits)

lemma fetch_token_sent:
  "fetch_token lib self w = (r, self', w') \<Longrightarrow>
     sent w' = sent w @ [identity_request self] \<and> reply w' = reply w \<and> clock w' = clock w"
  by (auto simp: fetch_token_def requests_post_def time_time_def Let_def
           split: outcome.splits option.splits sum.splits json.splits if_splits prod.splits)

lemma get_access_token_sent:
  "get_access_token lib self w = (r, self', w') \<Longrightarrow>
     (sent w' = sent w \<or> sent w' = sent w @ [identity_request self])
     \<and> reply w' = reply w \<and> clock w' = clock w"
  apply (simp add: get_access_token_def split: prod.splits bool.splits sum.splits)
  apply (auto dest!: token_cached_world fetch_token_sent)
  done


lemma generate_text_world:
  assumes "generate_text lib self p ty mt tp w = (r, self', w')"
  shows "\<exists>r0 w1. get_access_token lib self w = (r0, self', w1)
           \<and> identity_posts w' = identity_posts w1"
  using assms
  by (auto simp: generate_text_def generate_text_try_def requests_post_def Let_def
        identity_posts_def generation_request_def generation_url_not_identity
      split: prod.splits sum.splits outcome.splits option.splits)

lemma get_access_token_identity_posts:
  assumes "get_access_token lib self w = (r, self', w')"
  shows "length (identity_posts w') \<le> length (identity_posts w) + 1"
  using get_access_token_sent[OF assms] by (auto simp: identity_posts_def)

text \<open>
  Claim C1 (token reuse). In every client state whose \<^verbatim>\<open>access_token\<close> is a non-empty
  string and whose \<^verbatim>\<open>token_expiry\<close> lies after the current reading of the clock,
  \<^verbatim>\<open>_get_access_token\<close> returns the cached token, sends no request and leaves the client
  as it is: the world changes by the one reading of the clock only. Hence, of two
  successive calls of \<^verbatim>\<open>generate_text\<close> the second of which starts inside the expiry
  window, the second sends nothing to the identity endpoint and both together send at
  most one request there.
\<close>

theorem token_reuse:
  "(access_token self = JStr tok \<and> tok \<noteq> [] \<and> clock w (ticks w) < token_expiry self \<longrightarrow>
      get_access_token lib self w = (Inr (JStr tok), self, w\<lparr>ticks := Suc (ticks w)\<rparr>)
      \<and> sent (w\<lparr>ticks := Suc (ticks w)\<rparr>) = sent w)
   \<and> (generate_text lib self0 p1 ty1 mt1 tp1 w0 = (r1, self1, w1) \<and>
      generate_text lib self1 p2 ty2 mt2 tp2 w1 = (r2, self2, w2) \<and>
      truthy (access_token self1) \<and> clock w1 (ticks w1) < token_expiry self1 \<longrightarrow>
        identity_posts w2 = identity_posts w1
        \<and> length (identity_posts w2) \<le> length (identity_posts w0) + 1)"
proof (intro conjI impI)
  assume h: "access_token self = JStr tok \<and> tok \<noteq> [] \<and> clock w (ticks w) < token_expiry self"
  then have "truthy (access_token self)" by simp
  with h show "get_access_token lib self w = (Inr (JStr tok), self, w\<lparr>ticks := Suc (ticks w)\<rparr>)"
    using get_access_token_cached[of self w lib] by simp
  show "sent (w\<lparr>ticks := Suc (ticks w)\<rparr>) = sent w" by simp
next
  assume h: "generate_text lib self0 p1 ty1 mt1 tp1 w0 = (r1, self1, w1) \<and>
      generate_text lib self1 p2 ty2 mt2 tp2 w1 = (r2, self2, w2) \<and>
      truthy (access_token self1) \<and> clock w1 (ticks w1) < token_expiry self1"
  from h obtain ra wa where a: "get_access_token lib self0 w0 = (ra, self1, wa)"
      and a': "identity_posts w1 = identity_posts wa"
    using generate_text_world by blast
  from h obtain rb wb where b: "get_access_token lib self1 w1 = (rb, self2, wb)"
      and b': "identity_posts w2 = identity_posts wb"
    using generate_text_world by blast
  from h have "get_access_token lib self1 w1 = (Inr (access_token self1), self1, w1\<lparr>ticks := Suc (ticks w1)\<rparr>)"
    by (simp add: get_access_token_cached)
  with b have "wb = w1\<lparr>ticks := Suc (ticks w1)\<rparr>" by simp
  then have "identity_posts wb = identity_posts w1" by (simp add: identity_posts_def)
  with b' show same: "identity_posts w2 = identity_posts w1" by simp
  from get_access_token_identity_posts[OF a] a' same
  show "length (identity_posts w2) \<le> length (identity_posts w0) + 1" by simp
qed


lemmas token_defs = get_access_token_def token_cached_def fetch_token_def auth_except_def
  time_time_def requests_post_def raise_for_status_def response_json_def identity_request_def
  dict_get_def init_def rstrip_slash_def is_RequestException_def is_JSONDecodeError_def
  builtin_error_def

lemmas generate_defs = generate_text_def generate_text_try_def generate_text_except_def
  http_error_detail_def generation_request_def generation_payload_def
  generation_parameters_def generation_url_def extract_generated_def contains_results_def
  getitem_key_def py_len_def getitem_first_def py_str_def is_HTTPError_def
  is_ConnectionError_def is_Timeout_def identity_posts_def identity_url_def

lemmas example_defs = example_lib_def example_client_def example_world_def sample_world_def
  token_reply_def text_reply_def error_reply_def html_reply_def noise_reply_def
  no_token_reply_def list_reply_def

lemma example_first_call:
  "generate_text example_lib example_client ''a'' ''general'' 1000 (Finite (7 / 10)) example_world =
     (JStr ''ok'', example_client\<lparr>access_token := JStr ''tok-1'', token_expiry := 4000\<rparr>,
      example_world\<lparr>ticks := 1,
        sent := [identity_request example_client,
                 generation_request example_lib example_client (JStr ''tok-1'') ''a'' ''general'' 1000
                   (Finite (7 / 10))]\<rparr>)"
  by (simp add: token_defs generate_defs example_defs Let_def)

theorem token_reuse_witness:
  "get_access_token example_lib
      (example_client\<lparr>access_token := JStr ''tok-1'', token_expiry := 4000\<rparr>) example_world =
     (Inr (JStr ''tok-1''), example_client\<lparr>access_token := JStr ''tok-1'', token_expiry := 4000\<rparr>,
      example_world\<lparr>ticks := 1\<rparr>)
   \<and> (let (r1, self1, w1) = generate_text example_lib example_client ''a'' ''general'' 1000
                               (Finite (7 / 10)) example_world;
           (r2, self2, w2) = generate_text example_lib self1 ''b'' ''general'' 1000 (Finite (7 / 10)) w1
       in truthy (access_token self1) \<and> clock w1 (ticks w1) < token_expiry self1
          \<and> identity_posts w2 = identity_posts w1 \<and> length (identity_posts w2) = 1)"
proof -
  let ?s = "example_client\<lparr>access_token := JStr ''tok-1'', token_expiry := 4000\<rparr>"
  have a: "access_token ?s = JStr ''tok-1'' \<and> ''tok-1'' \<noteq> []
           \<and> clock example_world (ticks example_world) < token_expiry ?s"
    by (simp add: example_defs)
  have first: "get_access_token example_lib ?s example_world =
      (Inr (JStr ''tok-1''), ?s, example_world\<lparr>ticks := 1\<rparr>)"
    using a token_reuse[of ?s "''tok-1''" example_world example_lib] by (simp add: example_defs)
  obtain r1 self1 w1 where g1: "generate_text example_lib example_client ''a'' ''general'' 1000
      (Finite (7 / 10)) example_world = (r1, self1, w1)"
    by (cases "generate_text example_lib example_client ''a'' ''general'' 1000
      (Finite (7 / 10)) example_world") blast
  obtain r2 self2 w2 where g2: "generate_text example_lib self1 ''b'' ''general'' 1000
      (Finite (7 / 10)) w1 = (r2, self2, w2)"
    by (cases "generate_text example_lib self1 ''b'' ''general'' 1000 (Finite (7 / 10)) w1") blast
  from g1 have s1: "self1 = ?s" and w1: "w1 = example_world\<lparr>ticks := 1,
        sent := [identity_request example_client,
                 generation_request example_lib example_client (JStr ''tok-1'') ''a'' ''general'' 1000
                   (Finite (7 / 10))]\<rparr>"
    by (simp_all add: example_first_call)
  have hyp: "truthy (access_token self1) \<and> clock w1 (ticks w1) < token_expiry self1"
    by (simp add: s1 w1 example_defs)
  have n1: "length (identity_posts w1) = 1"
    by (simp add: w1 identity_posts_def identity_request_def generation_request_def
          generation_url_not_identity)
  from token_reuse[of self1 "''tok-1''" w1 example_lib example_client "''a''" "''general''" 1000
      "Finite (7 / 10)" example_world r1 self1 w1 "''b''" "''general''" 1000 "Finite (7 / 10)" r2 self2 w2]
    g1 g2 hyp
  have "identity_posts w2 = identity_posts w1" by blast
  with n1 hyp g1 g2 first show ?thesis by simp
qed

lemma get_access_token_refresh:
  assumes stale: "\<not> truthy (access_token self) \<or> token_expiry self \<le> clock w (ticks w)"
    and call: "get_access_token lib self w = (res, self', w')"
  shows "sent w' = sent w @ [identity_request self]
     \<and> identity_posts w' = identity_posts w @ [identity_request self]
     \<and> (\<forall>r kvs. reply w (length (sent w)) = Responds r
            \<and> (status_code r < 400 \<or> 600 \<le> status_code r)
            \<and> body_json r = Some (JObj kvs) \<longrightarrow>
          access_token self' = dict_get kvs ''access_token''
          \<and> token_expiry self' =
              clock w (if truthy (access_token self) then Suc (ticks w) else ticks w) + 3000)"
proof -
  obtain w1 where g: "token_cached self w = (False, w1)"
    and w1: "w1 = (if truthy (access_token self) then w\<lparr>ticks := Suc (ticks w)\<rparr> else w)"
    using stale by (auto simp: token_cached_def time_time_def)
  obtain r0 where f: "fetch_token lib self w1 = (r0, self', w')"
    using call g by (auto simp: get_access_token_def split: prod.splits sum.splits)
  have w1s: "sent w1 = sent w" "reply w1 = reply w" "clock w1 = clock w"
    "ticks w1 = (if truthy (access_token self) then Suc (ticks w) else ticks w)"
    by (simp_all add: w1)
  from fetch_token_sent[OF f] w1s have s: "sent w' = sent w @ [identity_request self]" by simp
  then have i: "identity_posts w' = identity_posts w @ [identity_request self]"
    by (simp add: identity_posts_def identity_request_def)
  have "access_token self' = dict_get kvs ''access_token''
          \<and> token_expiry self' = clock w (ticks w1) + 3000"
    if "reply w (length (sent w)) = Responds r" "status_code r < 400 \<or> 600 \<le> status_code r"
       "body_json r = Some (JObj kvs)" for r kvs
    using f that w1s
    by (auto simp: fetch_token_def requests_post_def raise_for_status_def response_json_def
          time_time_def Let_def split: if_splits)
  with s i w1s show ?thesis by simp
qed


text \<open>
  Claim C2 (token refresh). In every client state with no usable cached token, or with the
  clock at or past \<^verbatim>\<open>token_expiry\<close>, a call of \<^verbatim>\<open>_get_access_token\<close> sends exactly one
  request, the POST to the identity endpoint. When the reply passes \<^verbatim>\<open>raise_for_status\<close>
  and decodes to a dictionary, the cached token becomes the \<^verbatim>\<open>access_token\<close> field of
  that dictionary and \<^verbatim>\<open>token_expiry\<close> becomes the reading of the clock taken after the
  reply plus 3000, whatever else the dictionary holds.
\<close>

theorem token_refresh:
  assumes stale: "\<not> truthy (access_token self) \<or> token_expiry self \<le> clock w (ticks w)"
    and call: "get_access_token lib self w = (res, self', w')"
  shows "sent w' = sent w @ [identity_request self]
     \<and> identity_posts w' = identity_posts w @ [identity_request self]
     \<and> (\<forall>r kvs. reply w (length (sent w)) = Responds r
            \<and> (status_code r < 400 \<or> 600 \<le> status_code r)
            \<and> body_json r = Some (JObj kvs) \<longrightarrow>
          access_token self' = dict_get kvs ''access_token''
          \<and> token_expiry self' =
              clock w (if truthy (access_token self) then Suc (ticks w) else ticks w) + 3000)"
  using stale call by (rule get_access_token_refresh)

theorem token_refresh_witness:
  "(let self = example_client\<lparr>access_token := JStr ''old'', token_expiry := 500\<rparr>;
        (res, self', w') = get_access_token example_lib self example_world
    in token_expiry self \<le> clock example_world (ticks example_world)
       \<and> sent w' = [identity_request self]
       \<and> identity_posts w' = [identity_request self]
       \<and> res = Inr (JStr ''tok-1'')
       \<and> access_token self' = JStr ''tok-1''
       \<and> token_expiry self' = 4001)"
proof -
  let ?s = "example_client\<lparr>access_token := JStr ''old'', token_expiry := 500\<rparr>"
  obtain res self' w' where g: "get_access_token example_lib ?s example_world = (res, self', w')"
    by (cases "get_access_token example_lib ?s example_world") blast
  have stale: "\<not> truthy (access_token ?s)
      \<or> token_expiry ?s \<le> clock example_world (ticks example_world)"
    by (simp add: example_defs)
  have rep: "reply example_world (length (sent example_world)) = Responds token_reply
      \<and> (status_code token_reply < 400 \<or> 600 \<le> status_code token_reply)
      \<and> body_json token_reply =
          Some (JObj [(''access_token'', JStr ''tok-1''), (''expires_in'', JInt 3600)])"
    by (simp add: example_defs)
  from token_refresh[OF stale g] rep
  have "sent w' = sent example_world @ [identity_request ?s]
      \<and> identity_posts w' = identity_posts example_world @ [identity_request ?s]
      \<and> access_token self' =
          dict_get [(''access_token'', JStr ''tok-1''), (''expires_in'', JInt 3600)] ''access_token''
      \<and> token_expiry self' =
          clock example_world
            (if truthy (access_token ?s) then Suc (ticks example_world) else ticks example_world)
          + 3000"
    by blast
  moreover have "res = Inr (JStr ''tok-1'')"
    using g by (simp add: token_defs example_defs Let_def)
  ultimately show ?thesis
    using g stale
    by (simp add: example_defs dict_get_def identity_posts_def identity_request_def Let_def)
qed

section \<open>Properties of the requests\<close>

lemma get_access_token_config:
  assumes "get_access_token lib self w = (r, self', w')"
  shows "api_key self' = api_key self \<and> project_id self' = project_id self
         \<and> url self' = url self \<and> model_id self' = model_id self"
  using assms
  by (auto simp: get_access_token_def fetch_token_def token_cached_def time_time_def
        requests_post_def Let_def
      split: prod.splits bool.splits sum.splits outcome.splits option.splits json.splits
        if_splits)

lemma generation_posts_since:
  assumes "sent w1 = sent w \<or> sent w1 = sent w @ [identity_request self]"
  shows "generation_posts (drop (length (sent w)) (sent w1)) = []"
    and "generation_posts (drop (length (sent w)) (sent w1 @ [generation_request lib s1 tok p ty mt tp]))
         = [generation_request lib s1 tok p ty mt tp]"
  using assms
  by (auto simp: generation_posts_def identity_request_def generation_request_def
        generation_url_not_identity)

lemma generate_text_requests:
  "generation_posts (sent_since w (snd (snd (generate_text lib self p ty mt tp w)))) =
     (case get_access_token lib self w of
        (Inl e, s1, w1) \<Rightarrow> []
      | (Inr tok, s1, w1) \<Rightarrow> [generation_request lib s1 tok p ty mt tp])"
proof -
  obtain r0 s1 w1 where g: "get_access_token lib self w = (r0, s1, w1)"
    by (cases "get_access_token lib self w") blast
  from get_access_token_sent[OF g]
  have s: "sent w1 = sent w \<or> sent w1 = sent w @ [identity_request self]" by blast
  show ?thesis
  proof (cases r0)
    case (Inl e)
    with g generation_posts_since(1)[OF s] show ?thesis
      by (simp add: generate_text_def generate_text_try_def sent_since_def)
  next
    case (Inr tok)
    have "sent (snd (snd (generate_text lib self p ty mt tp w)))
          = sent w1 @ [generation_request lib s1 tok p ty mt tp]"
      using g Inr
      by (auto simp: generate_text_def generate_text_try_def requests_post_def Let_def
          split: outcome.splits option.splits sum.splits)
    with g Inr generation_posts_since(2)[OF s] show ?thesis
      by (simp add: sent_since_def)
  qed
qed


lemma request_temperature_generation:
  "request_temperature (generation_request lib s1 tok p ty mt tp) =
     Some (JFloat (if ty = ''classify'' then Finite (1 / 10) else tp))"
  by (simp add: request_temperature_def generation_request_def generation_payload_def
        generation_parameters_def)

lemma generate_text_temperature:
  "\<forall>rq \<in> set (generation_posts (sent_since w (snd (snd (generate_text lib self p ty mt tp w))))).
     request_temperature rq = Some (JFloat (if ty = ''classify'' then Finite (1 / 10) else tp))"
  unfolding generate_text_requests
  by (auto simp: request_temperature_generation split: prod.splits sum.splits)

lemma classify_requirements_world:
  "snd (snd (classify_requirements lib self req w)) =
     snd (snd (generate_text lib self (classify_prompt req) ''classify'' 1000 (Finite (1 / 10)) w))"
  by (simp add: classify_requirements_def split: prod.splits)

lemma generate_text_temperatures:
  "generation_temperatures w (snd (snd (generate_text lib self p ty mt tp w))) =
     (case fst (get_access_token lib self w) of
        Inl e \<Rightarrow> []
      | Inr tok \<Rightarrow> [Some (JFloat (if ty = ''classify'' then Finite (1 / 10) else tp))])"
  unfolding generation_temperatures_def generate_text_requests
  by (simp add: request_temperature_generation split: prod.splits sum.splits)

text \<open>
  Claim C8 (temperature dispatch). A call of \<^verbatim>\<open>generate_text\<close> that obtains its token sends
  exactly one request to the generation endpoint, and that request carries, in the
  \<^verbatim>\<open>parameters\<close> of its body, the temperature 0.1 when \<^verbatim>\<open>type_of_request\<close> is
  \<^verbatim>\<open>"classify"\<close> and the temperature argument of the caller otherwise; a call that does not
  obtain its token sends none. Hence \<^verbatim>\<open>classify_requirements\<close> sends its one request with
  0.1, and each of the code, test, fix, summarize and chat operations sends its one request
  with 0.7.
\<close>

theorem temperature_dispatch:
  "(\<forall>rq \<in> set (generation_posts (sent_since w
        (snd (snd (generate_text lib self prompt type_of_request max_tokens temperature w))))).
      request_temperature rq =
        Some (JFloat (if type_of_request = ''classify'' then Finite (1 / 10) else temperature)))
   \<and> (get_access_token lib self w = (Inr tok, self1, w1) \<longrightarrow>
        generation_posts (sent_since w
          (snd (snd (generate_text lib self prompt type_of_request max_tokens temperature w))))
        = [generation_request lib self1 tok prompt type_of_request max_tokens temperature])
   \<and> (\<forall>rq \<in> set (generation_posts (sent_since w
        (snd (snd (classify_requirements lib self requirements w))))).
      request_temperature rq = Some (JFloat (Finite (1 / 10))))
   \<and> (\<forall>rq \<in> set (generation_posts (sent_since w
        (snd (snd (generate_code lib self requirements language w))))).
      request_temperature rq = Some (JFloat (Finite (7 / 10))))
   \<and> (\<forall>rq \<in> set (generation_posts (sent_since w
        (snd (snd (generate_tests lib self code framework w))))).
      request_temperature rq = Some (JFloat (Finite (7 / 10))))
   \<and> (\<forall>rq \<in> set (generation_posts (sent_since w
        (snd (snd (fix_bugs lib self code error_description w))))).
      request_temperature rq = Some (JFloat (Finite (7 / 10))))
   \<and> (\<forall>rq \<in> set (generation_posts (sent_since w
        (snd (snd (summarize_code lib self code w))))).
      request_temperature rq = Some (JFloat (Finite (7 / 10))))
   \<and> (\<forall>rq \<in> set (generation_posts (sent_since w
        (snd (snd (chat_assistant lib self query context w))))).
      request_temperature rq = Some (JFloat (Finite (7 / 10))))
   \<and> generation_temperatures w
        (snd (snd (generate_text lib self prompt type_of_request max_tokens temperature w))) =
        (case fst (get_access_token lib self w) of
           Inl e \<Rightarrow> []
         | Inr tok \<Rightarrow>
             [Some (JFloat (if type_of_request = ''classify'' then Finite (1 / 10)
                            else temperature))])
   \<and> generation_temperatures w (snd (snd (classify_requirements lib self requirements w))) =
        (case fst (get_access_token lib self w) of
           Inl e \<Rightarrow> []
         | Inr tok \<Rightarrow> [Some (JFloat (Finite (1 / 10)))])
   \<and> generation_temperatures w (snd (snd (generate_code lib self requirements language w))) =
        (case fst (get_access_token lib self w) of
           Inl e \<Rightarrow> []
         | Inr tok \<Rightarrow> [Some (JFloat (Finite (7 / 10)))])
   \<and> generation_temperatures w (snd (snd (generate_tests lib self code framework w))) =
        (case fst (get_access_token lib self w) of
           Inl e \<Rightarrow> []
         | Inr tok \<Rightarrow> [Some (JFloat (Finite (7 / 10)))])
   \<and> generation_temperatures w (snd (snd (fix_bugs lib self code error_description w))) =
        (case fst (get_access_token lib self w) of
           Inl e \<Rightarrow> []
         | Inr tok \<Rightarrow> [Some (JFloat (Finite (7 / 10)))])
   \<and> generation_temperatures w (snd (snd (summarize_code lib self code w))) =
        (case fst (get_access_token lib self w) of
           Inl e \<Rightarrow> []
         | Inr tok \<Rightarrow> [Some (JFloat (Finite (7 / 10)))])
   \<and> generation_temperatures w (snd (snd (chat_assistant lib self query context w))) =
        (case fst (get_access_token lib self w) of
           Inl e \<Rightarrow> []
         | Inr tok \<Rightarrow> [Some (JFloat (Finite (7 / 10)))])"
proof (intro conjI impI)
  show "\<forall>rq \<in> set (generation_posts (sent_since w
        (snd (snd (generate_text lib self prompt type_of_request max_tokens temperature w))))).
      request_temperature rq =
        Some (JFloat (if type_of_request = ''classify'' then Finite (1 / 10) else temperature))"
    by (rule generate_text_temperature)
next
  assume "get_access_token lib self w = (Inr tok, self1, w1)"
  then show "generation_posts (sent_since w
          (snd (snd (generate_text lib self prompt type_of_request max_tokens temperature w))))
        = [generation_request lib self1 tok prompt type_of_request max_tokens temperature]"
    by (simp add: generate_text_requests)
next
  show "\<forall>rq \<in> set (generation_posts (sent_since w
        (snd (snd (classify_requirements lib self requirements w))))).
      request_temperature rq = Some (JFloat (Finite (1 / 10)))"
    using generate_text_temperature[of w lib self _ _ 1000 "Finite (1 / 10)"]
    by (simp add: classify_requirements_world)
next
  show "\<forall>rq \<in> set (generation_posts (sent_since w
        (snd (snd (generate_code lib self requirements language w))))).
      request_temperature rq = Some (JFloat (Finite (7 / 10)))"
    using generate_text_temperature[of w lib self _ _ 1000 "Finite (7 / 10)"]
    by (simp add: generate_code_def)
next
  show "\<forall>rq \<in> set (generation_posts (sent_since w
        (snd (snd (generate_tests lib self code framework w))))).
      request_temperature rq = Some (JFloat (Finite (7 / 10)))"
    using generate_text_temperature[of w lib self _ _ 1000 "Finite (7 / 10)"]
    by (simp add: generate_tests_def)
next
  show "\<forall>rq \<in> set (generation_posts (sent_since w
        (snd (snd (fix_bugs lib self code error_description w))))).
      request_temperature rq = Some (JFloat (Finite (7 / 10)))"
    using generate_text_temperature[of w lib self _ _ 1000 "Finite (7 / 10)"]
    by (simp add: fix_bugs_def)
next
  show "\<forall>rq \<in> set (generation_posts (sent_since w
        (snd (snd (summarize_code lib self code w))))).
      request_temperature rq = Some (JFloat (Finite (7 / 10)))"
    using generate_text_temperature[of w lib self _ _ 1000 "Finite (7 / 10)"]
    by (simp add: summarize_code_def)
next
  show "\<forall>rq \<in> set (generation_posts (sent_since w
        (snd (snd (chat_assistant lib self query context w))))).
      request_temperature rq = Some (JFloat (Finite (7 / 10)))"
    using generate_text_temperature[of w lib self _ _ 1000 "Finite (7 / 10)"]
    by (simp add: chat_assistant_def Let_def)
next
  show "generation_temperatures w
        (snd (snd (generate_text lib self prompt type_of_request max_tokens temperature w))) =
        (case fst (get_access_token lib self w) of
           Inl e \<Rightarrow> []
         | Inr tok \<Rightarrow>
             [Some (JFloat (if type_of_request = ''classify'' then Finite (1 / 10)
                            else temperature))])"
    by (rule generate_text_temperatures)
next
  show "generation_temperatures w (snd (snd (classify_requirements lib self requirements w))) =
        (case fst (get_access_token lib self w) of
           Inl e \<Rightarrow> []
         | Inr tok \<Rightarrow> [Some (JFloat (Finite (1 / 10)))])"
    by (simp add: classify_requirements_world generate_text_temperatures)
next
  show "generation_temperatures w (snd (snd (generate_code lib self requirements language w))) =
        (case fst (get_access_token lib self w) of
           Inl e \<Rightarrow> []
         | Inr tok \<Rightarrow> [Some (JFloat (Finite (7 / 10)))])"
    by (simp add: generate_code_def generate_text_temperatures)
next
  show "generation_temperatures w (snd (snd (generate_tests lib self code framework w))) =
        (case fst (get_access_token lib self w) of
           Inl e \<Rightarrow> []
         | Inr tok \<Rightarrow> [Some (JFloat (Finite (7 / 10)))])"
    by (simp add: generate_tests_def generate_text_temperatures)
next
  show "generation_temperatures w (snd (snd (fix_bugs lib self code error_description w))) =
        (case fst (get_access_token lib self w) of
           Inl e \<Rightarrow> []
         | Inr tok \<Rightarrow> [Some (JFloat (Finite (7 / 10)))])"
    by (simp add: fix_bugs_def generate_text_temperatures)
next
  show "generation_temperatures w (snd (snd (summarize_code lib self code w))) =
        (case fst (get_access_token lib self w) of
           Inl e \<Rightarrow> []
         | Inr tok \<Rightarrow> [Some (JFloat (Finite (7 / 10)))])"
    by (simp add: summarize_code_def generate_text_temperatures)
next
  show "generation_temperatures w (snd (snd (chat_assistant lib self query context w))) =
        (case fst (get_access_token lib self w) of
           Inl e \<Rightarrow> []
         | Inr tok \<Rightarrow> [Some (JFloat (Finite (7 / 10)))])"
    by (simp add: chat_assistant_def Let_def generate_text_temperatures)
qed

lemma example_token:
  "get_access_token example_lib example_client example_world =
     (Inr (JStr ''tok-1''), example_client\<lparr>access_token := JStr ''tok-1'', token_expiry := 4000\<rparr>,
      example_world\<lparr>ticks := 1, sent := [identity_request example_client]\<rparr>)"
  by (simp add: token_defs example_defs Let_def)

theorem temperature_dispatch_witness:
  "generation_temperatures example_world
        (snd (snd (generate_text example_lib example_client ''p'' ''classify'' 1000 (Finite (7 / 10)) example_world)))
     = [Some (JFloat (Finite (1 / 10)))]
   \<and> generation_temperatures example_world
        (snd (snd (generate_text example_lib example_client ''p'' ''general'' 1000 (Finite (3 / 10)) example_world)))
     = [Some (JFloat (Finite (3 / 10)))]
   \<and> generation_temperatures example_world
        (snd (snd (classify_requirements example_lib example_client ''r'' example_world)))
     = [Some (JFloat (Finite (1 / 10)))]
   \<and> generation_temperatures example_world
        (snd (snd (generate_code example_lib example_client ''r'' ''python'' example_world)))
     = [Some (JFloat (Finite (7 / 10)))]
   \<and> generation_temperatures example_world
        (snd (snd (generate_tests example_lib example_client ''c'' ''pytest'' example_world)))
     = [Some (JFloat (Finite (7 / 10)))]
   \<and> generation_temperatures example_world
        (snd (snd (fix_bugs example_lib example_client ''c'' ''it crashes'' example_world)))
     = [Some (JFloat (Finite (7 / 10)))]
   \<and> generation_temperatures example_world
        (snd (snd (summarize_code example_lib example_client ''c'' example_world)))
     = [Some (JFloat (Finite (7 / 10)))]
   \<and> generation_temperatures example_world
        (snd (snd (chat_assistant example_lib example_client ''q'' ''earlier talk'' example_world)))
     = [Some (JFloat (Finite (7 / 10)))]"
proof -
  have tok: "fst (get_access_token example_lib example_client example_world) = Inr (JStr ''tok-1'')"
    by (simp add: example_token)
  note t = temperature_dispatch[of example_world example_lib example_client _ _ 1000 _ _ _ _
      "''r''" "''python''" "''c''" "''pytest''" "''it crashes''" "''q''" "''earlier talk''"]
  from t[of "''p''" "''classify''" "Finite (7 / 10)"] tok
  have a: "generation_temperatures example_world
        (snd (snd (generate_text example_lib example_client ''p'' ''classify'' 1000 (Finite (7 / 10))
                     example_world)))
     = [Some (JFloat (Finite (1 / 10)))]"
    by simp
  from t[of "''p''" "''general''" "Finite (3 / 10)"] tok
  have b: "generation_temperatures example_world
        (snd (snd (generate_text example_lib example_client ''p'' ''general'' 1000 (Finite (3 / 10))
                     example_world)))
     = [Some (JFloat (Finite (3 / 10)))]"
    by simp
  from t[of "''p''" "''general''" "Finite (3 / 10)"] tok a b show ?thesis
    by simp
qed


lemma sublist_in_tail: "sublist xs ys \<Longrightarrow> sublist xs (zs @ ys)"
  by (metis append.assoc sublist_def)

lemma code_prompt_requirements: "sublist requirements (code_prompt requirements language)"
  unfolding code_prompt_def by (intro sublist_append_rightI sublist_in_tail)

lemma generation_request_body:
  "req_payload (generation_request lib s1 tok p ty mt tp) =
     JsonBody (JObj [(''model_id'', JStr (model_id s1)), (''input'', JStr p),
                     (''parameters'', generation_parameters ty mt tp),
                     (''project_id'', JStr (project_id s1))])"
  by (simp add: generation_request_def generation_payload_def)

lemma code_prompt_rendered:
  "code_prompt requirements language =
     ''You are an expert software developer. Generate high-quality, production-ready ''
          @ language
          @ '' code based on the following requirements.\<newline>\<newline>Requirements: ''
          @ requirements
          @ ''\<newline>\<newline>Please provide:\<newline>1. Clean, well-documented code\<newline>2. Proper error handling\<newline>3. Best practices implementation\<newline>4. Comments explaining key functionality\<newline>\<newline>Generate only the code with appropriate comments. Do not include explanations outside the code.\<newline>\<newline>Code:''"
  by (simp add: code_prompt_def)

lemma code_prompt_language: "sublist language (code_prompt requirements language)"
  unfolding code_prompt_def by (intro sublist_append_rightI sublist_in_tail)

text \<open>
  Claim C9 (request construction). \<^verbatim>\<open>generate_code\<close> renders the code-generation template
  around the language and the requirements: the text up to the language, the language, the
  text up to the requirements, the requirements, and the closing instructions. A call that
  obtains its token sends exactly one request to the generation endpoint; the body of every
  such request is a JSON object with exactly the keys \<^verbatim>\<open>model_id\<close>, \<^verbatim>\<open>input\<close>,
  \<^verbatim>\<open>parameters\<close> and \<^verbatim>\<open>project_id\<close>, where \<^verbatim>\<open>input\<close> is the rendered template, which
  contains the requirements text and the language, and \<^verbatim>\<open>model_id\<close> and \<^verbatim>\<open>project_id\<close>
  are those of the client.
\<close>

theorem generate_code_request:
  "(\<forall>rq \<in> set (generation_posts (sent_since w
        (snd (snd (generate_code lib self requirements language w))))).
      req_url rq = generation_url self
      \<and> req_payload rq =
          JsonBody (JObj [(''model_id'', JStr (model_id self)),
                          (''input'', JStr (code_prompt requirements language)),
                          (''parameters'', generation_parameters ''code'' 1000 (Finite (7 / 10))),
                          (''project_id'', JStr (project_id self))])
      \<and> body_keys rq = [''model_id'', ''input'', ''parameters'', ''project_id'']
      \<and> body_field rq ''input'' = Some (JStr (code_prompt requirements language))
      \<and> body_field rq ''model_id'' = Some (JStr (model_id self))
      \<and> body_field rq ''project_id'' = Some (JStr (project_id self)))
   \<and> sublist requirements (code_prompt requirements language)
   \<and> (get_access_token lib self w = (Inr tok, self1, w1) \<longrightarrow>
        length (generation_posts (sent_since w
          (snd (snd (generate_code lib self requirements language w))))) = 1)
   \<and> code_prompt requirements language =
        ''You are an expert software developer. Generate high-quality, production-ready ''
          @ language
          @ '' code based on the following requirements.\<newline>\<newline>Requirements: ''
          @ requirements
          @ ''\<newline>\<newline>Please provide:\<newline>1. Clean, well-documented code\<newline>2. Proper error handling\<newline>3. Best practices implementation\<newline>4. Comments explaining key functionality\<newline>\<newline>Generate only the code with appropriate comments. Do not include explanations outside the code.\<newline>\<newline>Code:''
   \<and> sublist language (code_prompt requirements language)
   \<and> (get_access_token lib self w = (Inr tok, self1, w1) \<longrightarrow>
        generation_posts (sent_since w
          (snd (snd (generate_code lib self requirements language w))))
        = [generation_request lib self1 tok (code_prompt requirements language) ''code'' 1000
             (Finite (7 / 10))]
        \<and> body_field (generation_request lib self1 tok (code_prompt requirements language)
                         ''code'' 1000 (Finite (7 / 10))) ''input'' =
            Some (JStr (''You are an expert software developer. Generate high-quality, production-ready ''
          @ language
          @ '' code based on the following requirements.\<newline>\<newline>Requirements: ''
          @ requirements
          @ ''\<newline>\<newline>Please provide:\<newline>1. Clean, well-documented code\<newline>2. Proper error handling\<newline>3. Best practices implementation\<newline>4. Comments explaining key functionality\<newline>\<newline>Generate only the code with appropriate comments. Do not include explanations outside the code.\<newline>\<newline>Code:'')))"
proof (intro conjI impI ballI)
  fix rq
  assume rq: "rq \<in> set (generation_posts (sent_since w
        (snd (snd (generate_code lib self requirements language w)))))"
  obtain r0 s1 w1' where g: "get_access_token lib self w = (r0, s1, w1')"
    by (cases "get_access_token lib self w") blast
  from rq g obtain t where t: "r0 = Inr t"
    and eq: "rq = generation_request lib s1 t (code_prompt requirements language) ''code'' 1000
                (Finite (7 / 10))"
    by (cases r0) (auto simp: generate_code_def generate_text_requests)
  from get_access_token_config[OF g]
  have cfg: "model_id s1 = model_id self" "project_id s1 = project_id self" "url s1 = url self"
    by simp_all
  show "req_url rq = generation_url self"
    by (simp add: eq generation_request_def generation_url_def cfg)
  show "req_payload rq =
          JsonBody (JObj [(''model_id'', JStr (model_id self)),
                          (''input'', JStr (code_prompt requirements language)),
                          (''parameters'', generation_parameters ''code'' 1000 (Finite (7 / 10))),
                          (''project_id'', JStr (project_id self))])"
    by (simp add: eq generation_request_body cfg)
  show "body_keys rq = [''model_id'', ''input'', ''parameters'', ''project_id'']"
    by (simp add: eq generation_request_body body_keys_def)
  show "body_field rq ''input'' = Some (JStr (code_prompt requirements language))"
    by (simp add: eq generation_request_body body_field_def)
  show "body_field rq ''model_id'' = Some (JStr (model_id self))"
    by (simp add: eq generation_request_body body_field_def cfg)
  show "body_field rq ''project_id'' = Some (JStr (project_id self))"
    by (simp add: eq generation_request_body body_field_def cfg)
next
  show "sublist requirements (code_prompt requirements language)"
    by (rule code_prompt_requirements)
next
  assume "get_access_token lib self w = (Inr tok, self1, w1)"
  then show "length (generation_posts (sent_since w
          (snd (snd (generate_code lib self requirements language w))))) = 1"
    by (simp add: generate_code_def generate_text_requests)
next
  show "code_prompt requirements language =
        ''You are an expert software developer. Generate high-quality, production-ready ''
          @ language
          @ '' code based on the following requirements.\<newline>\<newline>Requirements: ''
          @ requirements
          @ ''\<newline>\<newline>Please provide:\<newline>1. Clean, well-documented code\<newline>2. Proper error handling\<newline>3. Best practices implementation\<newline>4. Comments explaining key functionality\<newline>\<newline>Generate only the code with appropriate comments. Do not include explanations outside the code.\<newline>\<newline>Code:''"
    by (rule code_prompt_rendered)
next
  show "sublist language (code_prompt requirements language)"
    by (rule code_prompt_language)
next
  assume "get_access_token lib self w = (Inr tok, self1, w1)"
  then show "generation_posts (sent_since w
          (snd (snd (generate_code lib self requirements language w))))
        = [generation_request lib self1 tok (code_prompt requirements language) ''code'' 1000
             (Finite (7 / 10))]"
    by (simp add: generate_code_def generate_text_requests)
next
  show "body_field (generation_request lib self1 tok (code_prompt requirements language)
                         ''code'' 1000 (Finite (7 / 10))) ''input'' =
            Some (JStr (''You are an expert software developer. Generate high-quality, production-ready ''
          @ language
          @ '' code based on the following requirements.\<newline>\<newline>Requirements: ''
          @ requirements
          @ ''\<newline>\<newline>Please provide:\<newline>1. Clean, well-documented code\<newline>2. Proper error handling\<newline>3. Best practices implementation\<newline>4. Comments explaining key functionality\<newline>\<newline>Generate only the code with appropriate comments. Do not include explanations outside the code.\<newline>\<newline>Code:''))"
    by (simp only: generation_request_body body_field_def code_prompt_rendered) simp
qed

theorem generate_code_request_witness:
  "(let rqs = generation_posts (sent_since example_world
        (snd (snd (generate_code example_lib example_client
                     ''Create a function to add two numbers'' ''python'' example_world))))
    in length rqs = 1
       \<and> body_keys (hd rqs) = [''model_id'', ''input'', ''parameters'', ''project_id'']
       \<and> body_field (hd rqs) ''input'' =
           Some (JStr (code_prompt ''Create a function to add two numbers'' ''python''))
       \<and> body_field (hd rqs) ''input'' =
           Some (JStr ''You are an expert software developer. Generate high-quality, production-ready python code based on the following requirements.\<newline>\<newline>Requirements: Create a function to add two numbers\<newline>\<newline>Please provide:\<newline>1. Clean, well-documented code\<newline>2. Proper error handling\<newline>3. Best practices implementation\<newline>4. Comments explaining key functionality\<newline>\<newline>Generate only the code with appropriate comments. Do not include explanations outside the code.\<newline>\<newline>Code:'')
       \<and> body_field (hd rqs) ''model_id'' = Some (JStr ''ibm/granite-3-3-8b-instruct'')
       \<and> body_field (hd rqs) ''project_id'' = Some (JStr ''project-1''))
   \<and> sublist ''Create a function to add two numbers''
        (code_prompt ''Create a function to add two numbers'' ''python'')
   \<and> sublist ''python'' (code_prompt ''Create a function to add two numbers'' ''python'')"
proof -
  let ?rqs = "generation_posts (sent_since example_world
        (snd (snd (generate_code example_lib example_client
                     ''Create a function to add two numbers'' ''python'' example_world))))"
  note t = generate_code_request[of example_world example_lib example_client
      "''Create a function to add two numbers''" "''python''" "JStr ''tok-1''"
      "example_client\<lparr>access_token := JStr ''tok-1'', token_expiry := 4000\<rparr>"
      "example_world\<lparr>ticks := 1, sent := [identity_request example_client]\<rparr>"]
  from t example_token have len: "length ?rqs = 1" by blast
  then have mem: "hd ?rqs \<in> set ?rqs" by (cases ?rqs) simp_all
  from t mem have fields:
    "body_keys (hd ?rqs) = [''model_id'', ''input'', ''parameters'', ''project_id'']
     \<and> body_field (hd ?rqs) ''input'' =
           Some (JStr (code_prompt ''Create a function to add two numbers'' ''python''))
     \<and> body_field (hd ?rqs) ''model_id'' = Some (JStr (model_id example_client))
     \<and> body_field (hd ?rqs) ''project_id'' = Some (JStr (project_id example_client))"
    by blast
  from t have "code_prompt ''Create a function to add two numbers'' ''python'' =
      ''You are an expert software developer. Generate high-quality, production-ready '' @ ''python'' @ '' code based on the following requirements.\<newline>\<newline>Requirements: ''
        @ ''Create a function to add two numbers'' @ ''\<newline>\<newline>Please provide:\<newline>1. Clean, well-documented code\<newline>2. Proper error handling\<newline>3. Best practices implementation\<newline>4. Comments explaining key functionality\<newline>\<newline>Generate only the code with appropriate comments. Do not include explanations outside the code.\<newline>\<newline>Code:''"
    by blast
  then have rendered: "code_prompt ''Create a function to add two numbers'' ''python'' =
      ''You are an expert software developer. Generate high-quality, production-ready python code based on the following requirements.\<newline>\<newline>Requirements: Create a function to add two numbers\<newline>\<newline>Please provide:\<newline>1. Clean, well-documented code\<newline>2. Proper error handling\<newline>3. Best practices implementation\<newline>4. Comments explaining key functionality\<newline>\<newline>Generate only the code with appropriate comments. Do not include explanations outside the code.\<newline>\<newline>Code:''"
    by simp
  from t have subs: "sublist ''Create a function to add two numbers''
        (code_prompt ''Create a function to add two numbers'' ''python'')
      \<and> sublist ''python'' (code_prompt ''Create a function to add two numbers'' ''python'')"
    by blast
  from fields rendered have "body_field (hd ?rqs) ''input'' = Some (JStr ''You are an expert software developer. Generate high-quality, production-ready python code based on the following requirements.\<newline>\<newline>Requirements: Create a function to add two numbers\<newline>\<newline>Please provide:\<newline>1. Clean, well-documented code\<newline>2. Proper error handling\<newline>3. Best practices implementation\<newline>4. Comments explaining key functionality\<newline>\<newline>Generate only the code with appropriate comments. Do not include explanations outside the code.\<newline>\<newline>Code:'')"
    by simp
  with fields subs len show ?thesis by (simp add: Let_def example_client_def init_def)
qed

section \<open>Properties of the failure handling\<close>

lemma auth_except_class:
  "\<not> is_HTTPError (auth_except e) \<and> \<not> is_ConnectionError (auth_except e)
   \<and> \<not> is_Timeout (auth_except e) \<and> \<not> is_JSONDecodeError (auth_except e)"
  by (auto simp: auth_except_def is_RequestException_def is_JSONDecodeError_def is_HTTPError_def
        is_ConnectionError_def is_Timeout_def)

lemma get_access_token_error:
  assumes "get_access_token lib self w = (Inl e, self', w')"
  shows "\<exists>e0. e = auth_except e0"
  using assms
  by (auto simp: get_access_token_def split: prod.splits bool.splits sum.splits)

lemma generate_text_after_token:
  assumes "get_access_token lib self w = (Inr tok, self1, w1)"
  shows "generate_text_try lib self p ty mt tp w =
     (case reply w1 (length (sent w1)) of
        Raises e \<Rightarrow> Inl e
      | Responds r \<Rightarrow>
          (case raise_for_status lib r of
             Some e \<Rightarrow> Inl e
           | None \<Rightarrow>
               (case response_json lib r of
                  Inl e \<Rightarrow> Inl e
                | Inr result \<Rightarrow> extract_generated lib result)),
      self1, w1\<lparr>sent := sent w1 @ [generation_request lib self1 tok p ty mt tp]\<rparr>)"
  using assms
  by (simp add: generate_text_try_def requests_post_def
      split: outcome.splits option.splits sum.splits)

lemma http_error_prefix: "sublist ''HTTP error'' (''HTTP error occurred: '' @ rest)"
proof -
  have "''HTTP error occurred: '' @ rest = ''HTTP error'' @ ('' occurred: '' @ rest)" by simp
  then show ?thesis by (simp only: sublist_append_rightI)
qed

text \<open>
  Claim C3 (transport-failure mapping). When the token is obtained and the generation
  endpoint answers with a 4xx or 5xx status, \<^verbatim>\<open>generate_text\<close> returns the string
  \<^verbatim>\<open>HTTP error occurred: ...\<close> followed by the detail taken from the body of the reply:
  the decoded body when it is JSON, the raw body otherwise; the string contains
  \<^verbatim>\<open>HTTP error\<close> and that detail. A connection error and a timeout of the generation
  request are returned as strings of their own, a failure of the token manager as the
  string of the last handler, and whatever exception the body of the \<^verbatim>\<open>try\<close> raises,
  the call returns the string its handler builds: nothing is raised to the caller.
\<close>

theorem transport_failure_mapping:
  "(get_access_token lib self w = (Inr tok, self1, w1)
      \<and> reply w1 (length (sent w1)) = Responds r
      \<and> 400 \<le> status_code r \<and> status_code r < 600 \<longrightarrow>
        fst (generate_text lib self prompt ty mt tp w) =
          JStr (''HTTP error occurred: '' @ http_error_msg lib r @
                (case body_json r of
                   Some detail \<Rightarrow> '' - Details: '' @ py_str lib detail
                 | None \<Rightarrow> '' - Response: '' @ body_text r))
        \<and> (\<exists>s. fst (generate_text lib self prompt ty mt tp w) = JStr s
               \<and> sublist ''HTTP error'' s
               \<and> sublist (case body_json r of Some detail \<Rightarrow> py_str lib detail
                           | None \<Rightarrow> body_text r) s))
   \<and> (get_access_token lib self w = (Inr tok, self1, w1)
      \<and> reply w1 (length (sent w1)) = Raises e \<and> is_ConnectionError e \<longrightarrow>
        fst (generate_text lib self prompt ty mt tp w) =
          JStr (''Connection error: '' @ msg e @ '' - Check network or Watsonx URL: '' @ url self))
   \<and> (get_access_token lib self w = (Inr tok, self1, w1)
      \<and> reply w1 (length (sent w1)) = Raises e \<and> is_Timeout e \<and> \<not> is_ConnectionError e \<longrightarrow>
        fst (generate_text lib self prompt ty mt tp w) =
          JStr (''Timeout error: '' @ msg e @ '' - Watsonx API took too long to respond''))
   \<and> (get_access_token lib self w = (Inl e, self1, w1) \<longrightarrow>
        generate_text lib self prompt ty mt tp w =
          (JStr (''Unexpected error during API call: '' @ msg e), self1, w1))
   \<and> (generate_text_try lib self prompt ty mt tp w = (Inl e, self1, w1) \<longrightarrow>
        generate_text lib self prompt ty mt tp w =
          (JStr (generate_text_except lib self1 e), self1, w1))"
proof (intro conjI impI)
  assume h: "get_access_token lib self w = (Inr tok, self1, w1)
      \<and> reply w1 (length (sent w1)) = Responds r
      \<and> 400 \<le> status_code r \<and> status_code r < 600"
  let ?d = "case body_json r of Some detail \<Rightarrow> py_str lib detail | None \<Rightarrow> body_text r"
  let ?s = "''HTTP error occurred: '' @ http_error_msg lib r @
                (case body_json r of
                   Some detail \<Rightarrow> '' - Details: '' @ py_str lib detail
                 | None \<Rightarrow> '' - Response: '' @ body_text r)"
  from h have g: "get_access_token lib self w = (Inr tok, self1, w1)" by simp
  from h show r: "fst (generate_text lib self prompt ty mt tp w) = JStr ?s"
    by (simp add: generate_text_def generate_text_after_token[OF g] raise_for_status_def
          generate_text_except_def is_HTTPError_def http_error_detail_def response_json_def
        split: option.splits)
  have "sublist ''HTTP error'' ?s" by (rule http_error_prefix)
  moreover have "sublist ?d ?s"
  proof (cases "body_json r")
    case None
    show ?thesis unfolding None option.case
      by (intro sublist_append_leftI sublist_in_tail)
  next
    case (Some detail)
    show ?thesis unfolding Some option.case
      by (intro sublist_append_leftI sublist_in_tail)
  qed
  ultimately show "\<exists>s. fst (generate_text lib self prompt ty mt tp w) = JStr s
               \<and> sublist ''HTTP error'' s \<and> sublist ?d s"
    using r by blast
next
  assume h: "get_access_token lib self w = (Inr tok, self1, w1)
      \<and> reply w1 (length (sent w1)) = Raises e \<and> is_ConnectionError e"
  then have g: "get_access_token lib self w = (Inr tok, self1, w1)" by simp
  from get_access_token_config[OF g] have "url self1 = url self" by simp
  with h show "fst (generate_text lib self prompt ty mt tp w) =
          JStr (''Connection error: '' @ msg e @ '' - Check network or Watsonx URL: '' @ url self)"
    by (auto simp: generate_text_def generate_text_after_token[OF g] generate_text_except_def
          is_HTTPError_def is_ConnectionError_def)
next
  assume h: "get_access_token lib self w = (Inr tok, self1, w1)
      \<and> reply w1 (length (sent w1)) = Raises e \<and> is_Timeout e \<and> \<not> is_ConnectionError e"
  then have g: "get_access_token lib self w = (Inr tok, self1, w1)" by simp
  from h show "fst (generate_text lib self prompt ty mt tp w) =
          JStr (''Timeout error: '' @ msg e @ '' - Watsonx API took too long to respond'')"
    by (auto simp: generate_text_def generate_text_after_token[OF g] generate_text_except_def
          is_HTTPError_def is_ConnectionError_def is_Timeout_def)
next
  assume g: "get_access_token lib self w = (Inl e, self1, w1)"
  from get_access_token_error[OF g] obtain e0 where "e = auth_except e0" by blast
  with auth_except_class[of e0] g
  show "generate_text lib self prompt ty mt tp w =
          (JStr (''Unexpected error during API call: '' @ msg e), self1, w1)"
    by (simp add: generate_text_def generate_text_try_def generate_text_except_def)
next
  assume "generate_text_try lib self prompt ty mt tp w = (Inl e, self1, w1)"
  then show "generate_text lib self prompt ty mt tp w =
          (JStr (generate_text_except lib self1 e), self1, w1)"
    by (simp add: generate_text_def)
qed


lemma sample_token:
  "get_access_token example_lib example_client (sample_world (Responds token_reply) b) =
     (Inr (JStr ''tok-1''), example_client\<lparr>access_token := JStr ''tok-1'', token_expiry := 4000\<rparr>,
      (sample_world (Responds token_reply) b)\<lparr>ticks := 1, sent := [identity_request example_client]\<rparr>)"
  by (simp add: token_defs example_defs Let_def)

theorem transport_failure_mapping_witness:
  "fst (generate_text example_lib example_client ''p'' ''general'' 1000 (Finite (7 / 10))
          (sample_world (Responds token_reply) (Responds error_reply)))
     = JStr ''HTTP error occurred: Server Error - Details: {'error': 'boom'}''
   \<and> fst (generate_text example_lib example_client ''p'' ''general'' 1000 (Finite (7 / 10))
          (sample_world (Responds token_reply) (Raises (Exn ConnectionError ''refused'' None))))
     = JStr ''Connection error: refused - Check network or Watsonx URL: https://eu-de.ml.cloud.ibm.com''
   \<and> fst (generate_text example_lib example_client ''p'' ''general'' 1000 (Finite (7 / 10))
          (sample_world (Responds token_reply) (Raises (Exn ReadTimeout ''timed out'' None))))
     = JStr ''Timeout error: timed out - Watsonx API took too long to respond''
   \<and> fst (generate_text example_lib example_client ''p'' ''general'' 1000 (Finite (7 / 10))
          (sample_world (Raises (Exn ConnectionError ''refused'' None)) (Responds text_reply)))
     = JStr ''Unexpected error during API call: Authentication failed: refused''"
proof -
  let ?s1 = "example_client\<lparr>access_token := JStr ''tok-1'', token_expiry := 4000\<rparr>"
  let ?w1 = "\<lambda>b. (sample_world (Responds token_reply) b)\<lparr>ticks := 1,
                 sent := [identity_request example_client]\<rparr>"
  let ?conn = "Exn ConnectionError ''refused'' None"
  let ?tmo = "Exn ReadTimeout ''timed out'' None"
  have rep: "reply (?w1 b) (length (sent (?w1 b))) = b" for b
    by (simp add: sample_world_def)
  have "fst (generate_text example_lib example_client ''p'' ''general'' 1000 (Finite (7 / 10))
          (sample_world (Responds token_reply) (Responds error_reply)))
     = JStr (''HTTP error occurred: '' @ http_error_msg example_lib error_reply @
                (case body_json error_reply of
                   Some detail \<Rightarrow> '' - Details: '' @ py_str example_lib detail
                 | None \<Rightarrow> '' - Response: '' @ body_text error_reply))"
    using transport_failure_mapping[of example_lib example_client
        "sample_world (Responds token_reply) (Responds error_reply)" "JStr ''tok-1''" ?s1
        "?w1 (Responds error_reply)" error_reply "''p''" "''general''" 1000 "Finite (7 / 10)"]
      sample_token[of "Responds error_reply"] rep[of "Responds error_reply"]
    by (simp add: error_reply_def)
  then have a: "fst (generate_text example_lib example_client ''p'' ''general'' 1000 (Finite (7 / 10))
          (sample_world (Responds token_reply) (Responds error_reply)))
     = JStr ''HTTP error occurred: Server Error - Details: {'error': 'boom'}''"
    by (simp add: error_reply_def example_lib_def py_str_def)
  have b: "fst (generate_text example_lib example_client ''p'' ''general'' 1000 (Finite (7 / 10))
          (sample_world (Responds token_reply) (Raises ?conn)))
     = JStr ''Connection error: refused - Check network or Watsonx URL: https://eu-de.ml.cloud.ibm.com''"
    using transport_failure_mapping[of example_lib example_client
        "sample_world (Responds token_reply) (Raises ?conn)" "JStr ''tok-1''" ?s1
        "?w1 (Raises ?conn)" _ "''p''" "''general''" 1000 "Finite (7 / 10)" ?conn]
      sample_token[of "Raises ?conn"] rep[of "Raises ?conn"]
    by (simp add: is_ConnectionError_def example_client_def init_def rstrip_slash_def)
  have c: "fst (generate_text example_lib example_client ''p'' ''general'' 1000 (Finite (7 / 10))
          (sample_world (Responds token_reply) (Raises ?tmo)))
     = JStr ''Timeout error: timed out - Watsonx API took too long to respond''"
    using transport_failure_mapping[of example_lib example_client
        "sample_world (Responds token_reply) (Raises ?tmo)" "JStr ''tok-1''" ?s1
        "?w1 (Raises ?tmo)" _ "''p''" "''general''" 1000 "Finite (7 / 10)" ?tmo]
      sample_token[of "Raises ?tmo"] rep[of "Raises ?tmo"]
    by (simp add: is_ConnectionError_def is_Timeout_def)
  have auth: "get_access_token example_lib example_client
        (sample_world (Raises ?conn) (Responds text_reply))
      = (Inl (Exn PlainException ''Authentication failed: refused'' None), example_client,
         (sample_world (Raises ?conn) (Responds text_reply))\<lparr>sent := [identity_request example_client]\<rparr>)"
    by (simp add: token_defs example_defs Let_def)
  have d: "fst (generate_text example_lib example_client ''p'' ''general'' 1000 (Finite (7 / 10))
          (sample_world (Raises ?conn) (Responds text_reply)))
     = JStr ''Unexpected error during API call: Authentication failed: refused''"
    using transport_failure_mapping[of example_lib example_client
        "sample_world (Raises ?conn) (Responds text_reply)" _ example_client
        "(sample_world (Raises ?conn) (Responds text_reply))\<lparr>sent := [identity_request example_client]\<rparr>"
        _ "''p''" "''general''" 1000 "Finite (7 / 10)"
        "Exn PlainException ''Authentication failed: refused'' None"]
      auth
    by simp
  from a b c d show ?thesis by blast
qed

section \<open>Properties of the classification parser\<close>

lemma str_find_range: "- 1 \<le> str_find s c \<and> str_find s c < int (length s)"
  by (induction s) (auto simp: Let_def)

lemma str_find_absent: "c \<notin> set s \<Longrightarrow> str_find s c = - 1"
  by (induction s) (auto simp: Let_def)


lemma str_rfind_range: "- 1 \<le> str_rfind s c \<and> str_rfind s c < int (length s)"
  by (induction s) (auto simp: Let_def)

lemma str_rfind_absent: "c \<notin> set s \<Longrightarrow> str_rfind s c = - 1"
  by (induction s) (auto simp: Let_def)








text \<open>
  Claim C5 (classification fallback). For a model text without \<^verbatim>\<open>{\<close> or without \<^verbatim>\<open>}\<close> the
  parser returns the dictionary with the entries \<^verbatim>\<open>error\<close> and \<^verbatim>\<open>raw_response\<close>, the
  latter being the whole text. When the decoder raises on the sliced candidate, and more
  generally whenever the body of the \<^verbatim>\<open>try\<close> raises, the parser returns such a
  dictionary too, with the original response. \<^verbatim>\<open>classify_requirements\<close> returns what the
  parser makes of whatever \<^verbatim>\<open>generate_text\<close> returned; neither raises.
\<close>

theorem classification_fallback:
  "(CHR ''{'' \<notin> set s \<or> CHR ''}'' \<notin> set s \<longrightarrow>
      classify_parse lib (JStr s) =
        JObj [(''error'', JStr ''No valid JSON found in response''), (''raw_response'', JStr s)])
   \<and> (0 \<le> str_find s CHR ''{'' \<and> str_find s CHR ''{'' < str_rfind s CHR ''}'' + 1
      \<and> json_loads lib (str_slice s (str_find s CHR ''{'') (str_rfind s CHR ''}'' + 1)) = Inl e \<longrightarrow>
      classify_parse lib (JStr s) =
        JObj [(''error'', JStr (if is_JSONDecodeError e then ''Failed to parse classification''
                                else msg e)),
              (''raw_response'', JStr s)])
   \<and> (classify_try lib response = Inl e \<longrightarrow>
      classify_parse lib response =
        JObj [(''error'', JStr (if is_JSONDecodeError e then ''Failed to parse classification''
                                else msg e)),
              (''raw_response'', response)])
   \<and> fst (classify_requirements lib self requirements w) =
       classify_parse lib (fst (generate_text lib self (classify_prompt requirements) ''classify''
                                  1000 (Finite (1 / 10)) w))"
proof (intro conjI impI)
  assume "CHR ''{'' \<notin> set s \<or> CHR ''}'' \<notin> set s"
  then have "str_find s CHR ''{'' = - 1 \<or> str_rfind s CHR ''}'' = - 1"
    using str_find_absent str_rfind_absent by blast
  moreover have "- 1 \<le> str_find s CHR ''{''" using str_find_range by blast
  ultimately have "\<not> (0 \<le> str_find s CHR ''{'' \<and> str_find s CHR ''{'' < str_rfind s CHR ''}'' + 1)"
    by auto
  then show "classify_parse lib (JStr s) =
        JObj [(''error'', JStr ''No valid JSON found in response''), (''raw_response'', JStr s)]"
    by (auto simp: classify_parse_def classify_try_def Let_def)
next
  assume "0 \<le> str_find s CHR ''{'' \<and> str_find s CHR ''{'' < str_rfind s CHR ''}'' + 1
      \<and> json_loads lib (str_slice s (str_find s CHR ''{'') (str_rfind s CHR ''}'' + 1)) = Inl e"
  then show "classify_parse lib (JStr s) =
        JObj [(''error'', JStr (if is_JSONDecodeError e then ''Failed to parse classification''
                                else msg e)),
              (''raw_response'', JStr s)]"
    by (simp add: classify_parse_def classify_try_def Let_def)
next
  assume "classify_try lib response = Inl e"
  then show "classify_parse lib response =
        JObj [(''error'', JStr (if is_JSONDecodeError e then ''Failed to parse classification''
                                else msg e)),
              (''raw_response'', response)]"
    by (simp add: classify_parse_def)
next
  show "fst (classify_requirements lib self requirements w) =
       classify_parse lib (fst (generate_text lib self (classify_prompt requirements) ''classify''
                                  1000 (Finite (1 / 10)) w))"
    by (simp add: classify_requirements_def split: prod.splits)
qed

lemma example_generated:
  "fst (generate_text example_lib example_client p ''classify'' 1000 (Finite (1 / 10)) example_world)
     = JStr ''ok''"
  by (simp add: token_defs generate_defs example_defs Let_def)

theorem classification_fallback_witness:
  "classify_parse example_lib (JStr ''no braces here'') =
     JObj [(''error'', JStr ''No valid JSON found in response''),
           (''raw_response'', JStr ''no braces here'')]
   \<and> classify_parse example_lib (JStr ''see {oops} there'') =
     JObj [(''error'', JStr ''Failed to parse classification''),
           (''raw_response'', JStr ''see {oops} there'')]
   \<and> classify_parse example_lib (JInt 7) =
     JObj [(''error'', JStr ''unsupported operation''), (''raw_response'', JInt 7)]
   \<and> fst (classify_requirements example_lib example_client ''The system shall log in users''
            example_world) =
     JObj [(''error'', JStr ''No valid JSON found in response''), (''raw_response'', JStr ''ok'')]"
proof -
  let ?e = "Exn JSONDecodeError ''Expecting value'' None"
  have a: "classify_parse example_lib (JStr ''no braces here'') =
     JObj [(''error'', JStr ''No valid JSON found in response''),
           (''raw_response'', JStr ''no braces here'')]"
    using classification_fallback[of "''no braces here''" example_lib] by simp
  have h: "0 \<le> str_find ''see {oops} there'' CHR ''{''
      \<and> str_find ''see {oops} there'' CHR ''{'' < str_rfind ''see {oops} there'' CHR ''}'' + 1
      \<and> json_loads example_lib (str_slice ''see {oops} there'' (str_find ''see {oops} there'' CHR ''{'')
            (str_rfind ''see {oops} there'' CHR ''}'' + 1)) = Inl ?e"
    by (simp add: example_lib_def str_slice_def Let_def)
  have b: "classify_parse example_lib (JStr ''see {oops} there'') =
     JObj [(''error'', JStr ''Failed to parse classification''),
           (''raw_response'', JStr ''see {oops} there'')]"
    using classification_fallback[of "''see {oops} there''" example_lib ?e] h
    by (simp add: is_JSONDecodeError_def)
  have t: "classify_try example_lib (JInt 7) =
      Inl (Exn AttributeError ''unsupported operation'' None)"
    by (simp add: classify_try_def builtin_error_def example_lib_def)
  have c: "classify_parse example_lib (JInt 7) =
     JObj [(''error'', JStr ''unsupported operation''), (''raw_response'', JInt 7)]"
    using classification_fallback[of _ example_lib "Exn AttributeError ''unsupported operation'' None"
        "JInt 7"] t
    by (simp add: is_JSONDecodeError_def)
  have "fst (classify_requirements example_lib example_client ''The system shall log in users''
            example_world) = classify_parse example_lib (JStr ''ok'')"
    using classification_fallback[of _ example_lib _ _ example_client
        "''The system shall log in users''" example_world]
    by (simp add: example_generated)
  moreover have "classify_parse example_lib (JStr ''ok'') =
      JObj [(''error'', JStr ''No valid JSON found in response''), (''raw_response'', JStr ''ok'')]"
    using classification_fallback[of "''ok''" example_lib] by simp
  ultimately show ?thesis using a b c by simp
qed

section \<open>Failures of the token manager and the unbound local\<close>

text \<open>
  Claim C7. In the class of \<^verbatim>\<open>watsonx_integration.py\<close>, \<^verbatim>\<open>chat_assistant\<close> reads the local
  \<^verbatim>\<open>context_section\<close> in its prompt before the assignment to it has run. For every
  query, context, client and world the call raises \<^verbatim>\<open>UnboundLocalError\<close>, which is a
  \<^verbatim>\<open>NameError\<close>; the client and the world are as before, so no request has been sent.
\<close>

theorem integration_chat_assistant_unbound:
  "(\<exists>e. chat_assistant_integration lib self query context w = (Inl e, self, w)
        \<and> cls e = UnboundLocalError \<and> is_NameError e)
   \<and> sent (snd (snd (chat_assistant_integration lib self query context w))) = sent w"
  by (simp add: chat_assistant_integration_def load_local_def builtin_error_def is_NameError_def)

theorem integration_chat_assistant_unbound_witness:
  "chat_assistant_integration example_lib example_client ''How do I sort a list?'' ''earlier talk''
      example_world
     = (Inl (Exn UnboundLocalError ''unsupported operation'' None), example_client, example_world)
   \<and> sent (snd (snd (chat_assistant_integration example_lib example_client
                        ''How do I sort a list?'' ''earlier talk'' example_world))) = []
   \<and> fst (chat_assistant example_lib example_client ''How do I sort a list?'' ''earlier talk''
            example_world) = JStr ''ok''"
proof -
  from integration_chat_assistant_unbound[of example_lib example_client "''How do I sort a list?''"
      "''earlier talk''" example_world]
  obtain e where e: "chat_assistant_integration example_lib example_client ''How do I sort a list?''
      ''earlier talk'' example_world = (Inl e, example_client, example_world)"
    and s: "sent (snd (snd (chat_assistant_integration example_lib example_client
                        ''How do I sort a list?'' ''earlier talk'' example_world))) = sent example_world"
    by blast
  have "e = Exn UnboundLocalError ''unsupported operation'' None"
    using e by (simp add: chat_assistant_integration_def load_local_def builtin_error_def
        example_lib_def)
  moreover have "fst (chat_assistant example_lib example_client ''How do I sort a list?''
      ''earlier talk'' example_world) = JStr ''ok''"
    by (simp add: chat_assistant_def token_defs generate_defs example_defs Let_def)
  ultimately show ?thesis using e s by (simp add: example_world_def sample_world_def)
qed


lemma token_cached_cases:
  "token_cached self w =
     (if truthy (access_token self) \<and> clock w (ticks w) < token_expiry self
      then (True, w\<lparr>ticks := Suc (ticks w)\<rparr>)
      else (False, if truthy (access_token self) then w\<lparr>ticks := Suc (ticks w)\<rparr> else w))"
  by (simp add: token_cached_def time_time_def)

lemma fetch_token_result:
  "fst (fetch_token lib self w) =
     (case reply w (length (sent w)) of
        Raises e \<Rightarrow> Inl e
      | Responds r \<Rightarrow>
          if 400 \<le> status_code r \<and> status_code r < 600
          then Inl (Exn HTTPError (http_error_msg lib r) (Some r))
          else (case body_json r of
                  None \<Rightarrow> Inl (json_error lib r)
                | Some (JObj kvs) \<Rightarrow>
                    if truthy (dict_get kvs ''access_token'')
                    then Inr (dict_get kvs ''access_token'')
                    else Inl (Exn ValueError ''No access token received from IBM IAM'' None)
                | Some v \<Rightarrow> Inl (builtin_error lib AttributeError ''get'' v)))"
  by (simp add: fetch_token_def requests_post_def raise_for_status_def response_json_def
        time_time_def Let_def
      split: outcome.splits option.splits json.splits prod.splits)

lemma get_access_token_result:
  "fst (get_access_token lib self w) =
     (if fst (token_cached self w) then Inr (access_token self)
      else (case fst (fetch_token lib self (snd (token_cached self w))) of
              Inl e \<Rightarrow> Inl (auth_except e)
            | Inr v \<Rightarrow> Inr v))"
  by (simp add: get_access_token_def split: prod.splits bool.splits sum.splits)

lemma token_cached_reply:
  "reply (snd (token_cached self w)) (length (sent (snd (token_cached self w))))
     = reply w (length (sent w))"
  by (simp add: token_cached_cases)

lemma get_access_token_outcome:
  "fst (get_access_token lib self w) =
     (if fst (token_cached self w) then Inr (access_token self)
      else (case reply w (length (sent w)) of
        Raises e \<Rightarrow> Inl (auth_except e)
      | Responds r \<Rightarrow>
          if 400 \<le> status_code r \<and> status_code r < 600
          then Inl (Exn PlainException (''Authentication failed: '' @ http_error_msg lib r) None)
          else (case body_json r of
                  None \<Rightarrow> Inl (auth_except (json_error lib r))
                | Some (JObj kvs) \<Rightarrow>
                    if truthy (dict_get kvs ''access_token'')
                    then Inr (dict_get kvs ''access_token'')
                    else Inl (Exn ValueError ''No access token received from IBM IAM'' None)
                | Some v \<Rightarrow> Inl (builtin_error lib AttributeError ''get'' v))))"
  unfolding get_access_token_result fetch_token_result token_cached_reply
  by (simp add: auth_except_def is_RequestException_def is_JSONDecodeError_def builtin_error_def
      split: outcome.splits option.splits json.splits)

text \<open>
  Claim C6 (failures of the token manager). \<^verbatim>\<open>_get_access_token\<close> raises, and so returns
  no string, in exactly two situations, both on the refresh path: the request to the
  identity endpoint fails at transport or HTTP level, or the reply returns no token. In
  every other case it returns a value. A request that raises a \<^verbatim>\<open>RequestException\<close>, and a
  4xx or 5xx status, raise \<^verbatim>\<open>Exception("Authentication failed: ...")\<close>; a decoded dictionary
  whose \<^verbatim>\<open>access_token\<close> is missing or empty raises
  \<^verbatim>\<open>ValueError("No access token received from IBM IAM")\<close>; a body that is not JSON raises
  \<^verbatim>\<open>Exception("Authentication failed: ...")\<close> or
  \<^verbatim>\<open>Exception("Invalid response from authentication service")\<close>, by the class of the
  decoder's error.
\<close>

theorem auth_failure_situations:
  "((\<exists>e. fst (get_access_token lib self w) = Inl e) \<longleftrightarrow>
      \<not> fst (token_cached self w)
      \<and> (transport_failure (reply w (length (sent w)))
         \<or> no_token_returned (reply w (length (sent w)))))
   \<and> ((\<exists>v. fst (get_access_token lib self w) = Inr v) \<longleftrightarrow>
      fst (token_cached self w)
      \<or> (\<not> transport_failure (reply w (length (sent w)))
         \<and> \<not> no_token_returned (reply w (length (sent w)))))
   \<and> (\<not> fst (token_cached self w) \<and> reply w (length (sent w)) = Raises e \<longrightarrow>
        fst (get_access_token lib self w) = Inl (auth_except e)
        \<and> (is_RequestException e \<longrightarrow>
             auth_except e = Exn PlainException (''Authentication failed: '' @ msg e) None))
   \<and> (\<not> fst (token_cached self w) \<and> reply w (length (sent w)) = Responds r
        \<and> 400 \<le> status_code r \<and> status_code r < 600 \<longrightarrow>
        fst (get_access_token lib self w) =
          Inl (Exn PlainException (''Authentication failed: '' @ http_error_msg lib r) None))
   \<and> (\<not> fst (token_cached self w) \<and> reply w (length (sent w)) = Responds r
        \<and> (status_code r < 400 \<or> 600 \<le> status_code r)
        \<and> body_json r = Some (JObj kvs) \<and> \<not> truthy (dict_get kvs ''access_token'') \<longrightarrow>
        fst (get_access_token lib self w) =
          Inl (Exn ValueError ''No access token received from IBM IAM'' None))
   \<and> (\<not> fst (token_cached self w) \<and> reply w (length (sent w)) = Responds r
        \<and> (status_code r < 400 \<or> 600 \<le> status_code r) \<and> body_json r = None \<longrightarrow>
        fst (get_access_token lib self w) = Inl (auth_except (json_error lib r))
        \<and> (is_RequestException (json_error lib r) \<longrightarrow>
             auth_except (json_error lib r) =
               Exn PlainException (''Authentication failed: '' @ msg (json_error lib r)) None)
        \<and> (\<not> is_RequestException (json_error lib r) \<and> is_JSONDecodeError (json_error lib r) \<longrightarrow>
             auth_except (json_error lib r) =
               Exn PlainException ''Invalid response from authentication service'' None))"
  unfolding get_access_token_outcome
  by (auto simp: transport_failure_def no_token_returned_def auth_except_def builtin_error_def
      split: outcome.splits option.splits json.splits)

theorem auth_failure_situations_witness:
  "fst (get_access_token example_lib example_client
          (sample_world (Raises (Exn ConnectionError ''refused'' None)) (Responds text_reply)))
     = Inl (Exn PlainException ''Authentication failed: refused'' None)
   \<and> fst (get_access_token example_lib example_client
          (sample_world (Responds error_reply) (Responds text_reply)))
     = Inl (Exn PlainException ''Authentication failed: Server Error'' None)
   \<and> fst (get_access_token example_lib example_client
          (sample_world (Responds no_token_reply) (Responds text_reply)))
     = Inl (Exn ValueError ''No access token received from IBM IAM'' None)
   \<and> fst (get_access_token example_lib example_client
          (sample_world (Responds html_reply) (Responds text_reply)))
     = Inl (Exn PlainException ''Authentication failed: Expecting value'' None)
   \<and> (\<exists>e. fst (get_access_token example_lib example_client
          (sample_world (Responds list_reply) (Responds text_reply))) = Inl e)
   \<and> (\<exists>v. fst (get_access_token example_lib example_client example_world) = Inr v)
   \<and> \<not> transport_failure (Responds token_reply) \<and> \<not> no_token_returned (Responds token_reply)
   \<and> no_token_returned (Responds html_reply) \<and> no_token_returned (Responds list_reply)
   \<and> no_token_returned (Responds no_token_reply) \<and> transport_failure (Responds error_reply)"
proof -
  let ?conn = "Exn ConnectionError ''refused'' None"
  have stale: "\<not> fst (token_cached example_client (sample_world a b))" for a b
    by (simp add: token_cached_def example_client_def init_def)
  have rep: "reply (sample_world a b) (length (sent (sample_world a b))) = a" for a b
    by (simp add: sample_world_def)
  have a: "fst (get_access_token example_lib example_client
          (sample_world (Raises ?conn) (Responds text_reply)))
     = Inl (Exn PlainException ''Authentication failed: refused'' None)"
    using auth_failure_situations[of example_lib example_client
        "sample_world (Raises ?conn) (Responds text_reply)" ?conn] stale rep
    by (simp add: is_RequestException_def)
  have b: "fst (get_access_token example_lib example_client
          (sample_world (Responds error_reply) (Responds text_reply)))
     = Inl (Exn PlainException ''Authentication failed: Server Error'' None)"
    using auth_failure_situations[of example_lib example_client
        "sample_world (Responds error_reply) (Responds text_reply)" _ error_reply] stale rep
    by (simp add: error_reply_def example_lib_def)
  have c: "fst (get_access_token example_lib example_client
          (sample_world (Responds no_token_reply) (Responds text_reply)))
     = Inl (Exn ValueError ''No access token received from IBM IAM'' None)"
    using auth_failure_situations[of example_lib example_client
        "sample_world (Responds no_token_reply) (Responds text_reply)" _ no_token_reply
        "[(''expires_in'', JInt 3600)]"] stale rep
    by (simp add: no_token_reply_def dict_get_def)
  have d: "fst (get_access_token example_lib example_client
          (sample_world (Responds html_reply) (Responds text_reply)))
     = Inl (Exn PlainException ''Authentication failed: Expecting value'' None)"
    using auth_failure_situations[of example_lib example_client
        "sample_world (Responds html_reply) (Responds text_reply)" _ html_reply] stale rep
    by (simp add: html_reply_def example_lib_def is_RequestException_def)
  have sit: "\<not> transport_failure (Responds token_reply) \<and> \<not> no_token_returned (Responds token_reply)
      \<and> no_token_returned (Responds html_reply) \<and> no_token_returned (Responds list_reply)
      \<and> no_token_returned (Responds no_token_reply) \<and> transport_failure (Responds error_reply)"
    by (simp add: transport_failure_def no_token_returned_def example_defs dict_get_def)
  have e: "\<exists>e. fst (get_access_token example_lib example_client
          (sample_world (Responds list_reply) (Responds text_reply))) = Inl e"
    using auth_failure_situations[of example_lib example_client
        "sample_world (Responds list_reply) (Responds text_reply)"] stale rep sit
    by simp
  have f: "\<exists>v. fst (get_access_token example_lib example_client example_world) = Inr v"
    using auth_failure_situations[of example_lib example_client example_world] rep sit
    by (simp add: example_world_def)
  from a b c d e f sit show ?thesis by blast
qed

section \<open>The invariant of the cached token\<close>

lemma received_tokens_set:
  "set (received_tokens w) =
     {t. \<exists>i<length (sent w). req_url (sent w ! i) = identity_url
            \<and> token_of_outcome (reply w i) = Some t}"
  by (force simp: received_tokens_def List.map_filter_def image_iff split: if_splits)

lemma received_tokens_mono:
  assumes "sent w' = sent w @ xs" "reply w' = reply w"
  shows "set (received_tokens w) \<subseteq> set (received_tokens w')"
proof
  fix t
  assume "t \<in> set (received_tokens w)"
  then obtain i where i: "i < length (sent w)" "req_url (sent w ! i) = identity_url"
      "token_of_outcome (reply w i) = Some t"
    unfolding received_tokens_set by blast
  with assms have "i < length (sent w')" "req_url (sent w' ! i) = identity_url"
      "token_of_outcome (reply w' i) = Some t"
    by (simp_all add: nth_append)
  then show "t \<in> set (received_tokens w')"
    unfolding received_tokens_set by blast
qed

lemma received_tokens_new:
  assumes "sent w' = sent w @ [identity_request self]" "reply w' = reply w"
    and "token_of_outcome (reply w (length (sent w))) = Some t"
  shows "t \<in> set (received_tokens w')"
proof -
  from assms have "length (sent w) < length (sent w')"
      "req_url (sent w' ! length (sent w)) = identity_url"
      "token_of_outcome (reply w' (length (sent w))) = Some t"
    by (simp_all add: identity_request_def)
  then show ?thesis unfolding received_tokens_set by blast
qed

lemma fetch_token_state:
  assumes "fetch_token lib self w = (res, self', w')"
  shows "(access_token self' = access_token self \<and> token_expiry self' = token_expiry self)
         \<or> token_of_outcome (reply w (length (sent w))) = Some (access_token self')"
  using assms
  by (auto simp: fetch_token_def requests_post_def raise_for_status_def response_json_def
        time_time_def token_of_outcome_def Let_def
      split: outcome.splits option.splits sum.splits json.splits if_splits prod.splits)

lemma fetch_token_value:
  assumes "fetch_token lib self w = (Inr v, self', w')"
  shows "truthy v \<and> token_of_outcome (reply w (length (sent w))) = Some v"
  using assms
  by (auto simp: fetch_token_def requests_post_def raise_for_status_def response_json_def
        time_time_def token_of_outcome_def Let_def
      split: outcome.splits option.splits sum.splits json.splits if_splits prod.splits)

lemma get_access_token_known:
  assumes inv: "token_known self w" and g: "get_access_token lib self w = (res, self', w')"
  shows "token_known self' w'"
proof -
  obtain b w1 where c: "token_cached self w = (b, w1)" by (cases "token_cached self w") blast
  from token_cached_world[OF c] have w1: "sent w1 = sent w" "reply w1 = reply w" by simp_all
  have sub1: "set (received_tokens w) \<subseteq> set (received_tokens w1)"
    by (rule received_tokens_mono[of _ _ "[]"]) (simp_all add: w1)
  show ?thesis
  proof (cases b)
    case True
    with g c have "self' = self" "w' = w1" by (simp_all add: get_access_token_def)
    with inv sub1 show ?thesis by (auto simp: token_known_def)
  next
    case False
    with g c obtain r0 where f: "fetch_token lib self w1 = (r0, self', w')"
      by (auto simp: get_access_token_def split: prod.splits sum.splits)
    from fetch_token_sent[OF f] have s: "sent w' = sent w1 @ [identity_request self]"
      "reply w' = reply w1" by simp_all
    have sub2: "set (received_tokens w1) \<subseteq> set (received_tokens w')"
      by (rule received_tokens_mono[OF s])
    from fetch_token_state[OF f] show ?thesis
    proof
      assume "access_token self' = access_token self \<and> token_expiry self' = token_expiry self"
      with inv sub1 sub2 show ?thesis by (auto simp: token_known_def)
    next
      assume "token_of_outcome (reply w1 (length (sent w1))) = Some (access_token self')"
      from received_tokens_new[OF s this] show ?thesis by (simp add: token_known_def)
    qed
  qed
qed

lemma generate_text_known:
  assumes inv: "token_known self w" and g: "generate_text lib self p ty mt tp w = (v, self', w')"
  shows "token_known self' w'"
proof -
  obtain r0 s1 w1 where a: "get_access_token lib self w = (r0, s1, w1)"
    by (cases "get_access_token lib self w") blast
  from get_access_token_known[OF inv a] have k: "token_known s1 w1" .
  from a g have s: "self' = s1" and "\<exists>xs. sent w' = sent w1 @ xs \<and> reply w' = reply w1"
    by (auto simp: generate_text_def generate_text_try_def requests_post_def Let_def
        split: sum.splits outcome.splits option.splits prod.splits)
  then obtain xs where "sent w' = sent w1 @ xs" "reply w' = reply w1" by blast
  from received_tokens_mono[OF this] k s show ?thesis by (auto simp: token_known_def)
qed

lemma reachable_known: "reachable lib self w \<Longrightarrow> token_known self w"
proof (induction rule: reachable.induct)
  case (created k p u m w)
  show ?case by (simp add: token_known_def init_def)
next
  case (token self w r self' w')
  then show ?case by (blast intro: get_access_token_known)
next
  case (generate self w prompt ty mt tp v self' w')
  then show ?case by (blast intro: generate_text_known)
qed


text \<open>
  Claim C10 (invariant of the token manager). In every state a client can reach, a value
  returned by \<^verbatim>\<open>_get_access_token\<close> is truthy, hence neither \<^verbatim>\<open>None\<close> nor the empty
  string, and was delivered as the \<^verbatim>\<open>access_token\<close> field of a reply of the identity
  endpoint: either by the reply to the request of this very call, or by an earlier reply,
  in which case it is the cached token and the clock is still before \<^verbatim>\<open>token_expiry\<close>.
  When a refresh is answered with a dictionary that has no \<^verbatim>\<open>access_token\<close>, the call
  raises \<^verbatim>\<open>ValueError\<close> with \<^verbatim>\<open>None\<close> stored as the token and \<^verbatim>\<open>token_expiry\<close> already
  advanced to the reading of the clock plus 3000; from that state the guard of the
  cached branch is false in every world, so the next call sends a request again.
\<close>

theorem returned_token_invariant:
  assumes reach: "reachable lib self w"
    and call: "get_access_token lib self w = (res, self', w')"
  shows "(\<forall>v. res = Inr v \<longrightarrow>
            truthy v \<and> v \<noteq> JNull \<and> v \<noteq> JStr [] \<and> v \<in> set (received_tokens w')
            \<and> ((sent w' = sent w @ [identity_request self]
                 \<and> token_of_outcome (reply w (length (sent w))) = Some v)
               \<or> (sent w' = sent w \<and> v = access_token self
                  \<and> clock w (ticks w) < token_expiry self \<and> v \<in> set (received_tokens w))))
     \<and> (\<forall>r kvs. (\<not> truthy (access_token self) \<or> token_expiry self \<le> clock w (ticks w))
            \<and> reply w (length (sent w)) = Responds r
            \<and> (status_code r < 400 \<or> 600 \<le> status_code r)
            \<and> body_json r = Some (JObj kvs) \<and> map_of kvs ''access_token'' = None \<longrightarrow>
          res = Inl (Exn ValueError ''No access token received from IBM IAM'' None)
          \<and> access_token self' = JNull
          \<and> token_expiry self' =
              clock w (if truthy (access_token self) then Suc (ticks w) else ticks w) + 3000
          \<and> (\<forall>w2. \<not> fst (token_cached self' w2))
          \<and> (\<forall>w2. sent (snd (snd (get_access_token lib self' w2)))
                     = sent w2 @ [identity_request self']))"
proof (intro conjI allI impI)
  fix v
  assume res: "res = Inr v"
  from reachable_known[OF reach] have known: "token_known self w" .
  from get_access_token_known[OF known call] have known': "token_known self' w'" .
  obtain b w1 where c: "token_cached self w = (b, w1)" by (cases "token_cached self w") blast
  from token_cached_world[OF c] have w1: "sent w1 = sent w" "reply w1 = reply w" by simp_all
  have main: "truthy v \<and> v \<in> set (received_tokens w')
            \<and> ((sent w' = sent w @ [identity_request self]
                 \<and> token_of_outcome (reply w (length (sent w))) = Some v)
               \<or> (sent w' = sent w \<and> v = access_token self
                  \<and> clock w (ticks w) < token_expiry self \<and> v \<in> set (received_tokens w)))"
  proof (cases b)
    case True
    with c have hit: "truthy (access_token self)" "clock w (ticks w) < token_expiry self"
      by (auto simp: token_cached_def time_time_def split: if_splits)
    from True c call res have eq: "v = access_token self" "self' = self" "w' = w1"
      by (auto simp: get_access_token_def)
    from hit known have "access_token self \<in> set (received_tokens w)"
      by (auto simp: token_known_def)
    moreover from hit known' eq have "v \<in> set (received_tokens w')"
      by (auto simp: token_known_def)
    ultimately show ?thesis using hit eq w1 by simp
  next
    case False
    with c call res have f: "fetch_token lib self w1 = (Inr v, self', w')"
      by (auto simp: get_access_token_def split: prod.splits sum.splits)
    from fetch_token_sent[OF f] have s: "sent w' = sent w1 @ [identity_request self]"
      "reply w' = reply w1" by simp_all
    from fetch_token_value[OF f] have val: "truthy v"
      "token_of_outcome (reply w1 (length (sent w1))) = Some v" by simp_all
    from received_tokens_new[OF s val(2)] have "v \<in> set (received_tokens w')" .
    with val s w1 show ?thesis by simp
  qed
  then show "truthy v" by simp
  with truthy_not_none show "v \<noteq> JNull" "v \<noteq> JStr []" by blast+
  from main show "v \<in> set (received_tokens w')" by simp
  from main show "(sent w' = sent w @ [identity_request self]
                 \<and> token_of_outcome (reply w (length (sent w))) = Some v)
               \<or> (sent w' = sent w \<and> v = access_token self
                  \<and> clock w (ticks w) < token_expiry self \<and> v \<in> set (received_tokens w))"
    by simp
next
  fix r kvs
  assume h: "(\<not> truthy (access_token self) \<or> token_expiry self \<le> clock w (ticks w))
            \<and> reply w (length (sent w)) = Responds r
            \<and> (status_code r < 400 \<or> 600 \<le> status_code r)
            \<and> body_json r = Some (JObj kvs) \<and> map_of kvs ''access_token'' = None"
  then have stale: "\<not> truthy (access_token self) \<or> token_expiry self \<le> clock w (ticks w)"
    by simp
  from h have none: "dict_get kvs ''access_token'' = JNull" by (simp add: dict_get_def)
  from get_access_token_refresh[OF stale call] h none
  have st: "access_token self' = JNull"
    "token_expiry self' =
       clock w (if truthy (access_token self) then Suc (ticks w) else ticks w) + 3000"
    by auto
  show "access_token self' = JNull" by (rule st(1))
  show "token_expiry self' =
       clock w (if truthy (access_token self) then Suc (ticks w) else ticks w) + 3000"
    by (rule st(2))
  have "fst (get_access_token lib self w) =
      Inl (Exn ValueError ''No access token received from IBM IAM'' None)"
    using h stale none
    by (auto simp: get_access_token_outcome token_cached_cases)
  with call show "res = Inl (Exn ValueError ''No access token received from IBM IAM'' None)"
    by simp
  show nc: "\<not> fst (token_cached self' w2)" for w2
    using st(1) by (simp add: token_cached_def)
  show "sent (snd (snd (get_access_token lib self' w2))) = sent w2 @ [identity_request self']"
    for w2
  proof -
    obtain r2 s2 w3 where g2: "get_access_token lib self' w2 = (r2, s2, w3)"
      by (cases "get_access_token lib self' w2") blast
    have "\<not> truthy (access_token self') \<or> token_expiry self' \<le> clock w2 (ticks w2)"
      using st(1) by simp
    from get_access_token_refresh[OF this g2] g2 show ?thesis by simp
  qed
qed


lemma example_reachable: "reachable example_lib example_client example_world"
  unfolding example_client_def by (rule reachable.created)

lemma no_token_call:
  "get_access_token example_lib example_client
      (sample_world (Responds no_token_reply) (Responds text_reply))
     = (Inl (Exn ValueError ''No access token received from IBM IAM'' None),
        example_client\<lparr>access_token := JNull, token_expiry := 4000\<rparr>,
        (sample_world (Responds no_token_reply) (Responds text_reply))
          \<lparr>ticks := 1, sent := [identity_request example_client]\<rparr>)"
  by (simp add: token_defs example_defs Let_def)

theorem returned_token_invariant_witness:
  "reachable example_lib example_client example_world
   \<and> fst (get_access_token example_lib example_client example_world) = Inr (JStr ''tok-1'')
   \<and> token_of_outcome (reply example_world (length (sent example_world))) = Some (JStr ''tok-1'')
   \<and> JStr ''tok-1''
        \<in> set (received_tokens (snd (snd (get_access_token example_lib example_client example_world))))
   \<and> (let self1 = example_client\<lparr>access_token := JStr ''tok-1'', token_expiry := 4000\<rparr>;
           w1 = example_world\<lparr>ticks := 1, sent := [identity_request example_client]\<rparr>
       in reachable example_lib self1 w1
          \<and> get_access_token example_lib self1 w1 = (Inr (JStr ''tok-1''), self1, w1\<lparr>ticks := 2\<rparr>)
          \<and> clock w1 (ticks w1) < token_expiry self1
          \<and> JStr ''tok-1'' \<in> set (received_tokens w1))
   \<and> (let w = sample_world (Responds no_token_reply) (Responds text_reply);
           self' = fst (snd (get_access_token example_lib example_client w))
       in reachable example_lib example_client w
          \<and> fst (get_access_token example_lib example_client w) =
               Inl (Exn ValueError ''No access token received from IBM IAM'' None)
          \<and> access_token self' = JNull \<and> token_expiry self' = 4000
          \<and> (\<forall>w2. \<not> fst (token_cached self' w2))
          \<and> (\<forall>w2. sent (snd (snd (get_access_token example_lib self' w2)))
                     = sent w2 @ [identity_request self']))"
proof -
  let ?s1 = "example_client\<lparr>access_token := JStr ''tok-1'', token_expiry := 4000\<rparr>"
  let ?w1 = "example_world\<lparr>ticks := 1, sent := [identity_request example_client]\<rparr>"
  let ?w = "sample_world (Responds no_token_reply) (Responds text_reply)"
  let ?s' = "example_client\<lparr>access_token := JNull, token_expiry := 4000\<rparr>"
  let ?w' = "?w\<lparr>ticks := 1, sent := [identity_request example_client]\<rparr>"
  note r0 = example_reachable
  from returned_token_invariant[OF r0 example_token]
  have a: "JStr ''tok-1'' \<in> set (received_tokens ?w1)"
    "(sent ?w1 = sent example_world @ [identity_request example_client]
        \<and> token_of_outcome (reply example_world (length (sent example_world))) = Some (JStr ''tok-1''))
     \<or> (sent ?w1 = sent example_world \<and> JStr ''tok-1'' = access_token example_client
        \<and> clock example_world (ticks example_world) < token_expiry example_client
        \<and> JStr ''tok-1'' \<in> set (received_tokens example_world))"
    by blast+
  from a(2) have a2: "token_of_outcome (reply example_world (length (sent example_world)))
      = Some (JStr ''tok-1'')"
    by (auto simp: example_client_def init_def)
  have r1: "reachable example_lib ?s1 ?w1"
    by (rule reachable.token[OF r0 example_token])
  have g1: "get_access_token example_lib ?s1 ?w1 = (Inr (JStr ''tok-1''), ?s1, ?w1\<lparr>ticks := 2\<rparr>)"
    by (simp add: get_access_token_def token_cached_def time_time_def example_defs)
  from returned_token_invariant[OF r1 g1]
  have b: "(sent (?w1\<lparr>ticks := 2\<rparr>) = sent ?w1 @ [identity_request ?s1]
        \<and> token_of_outcome (reply ?w1 (length (sent ?w1))) = Some (JStr ''tok-1''))
     \<or> (sent (?w1\<lparr>ticks := 2\<rparr>) = sent ?w1 \<and> JStr ''tok-1'' = access_token ?s1
        \<and> clock ?w1 (ticks ?w1) < token_expiry ?s1
        \<and> JStr ''tok-1'' \<in> set (received_tokens ?w1))"
    by blast
  then have b': "clock ?w1 (ticks ?w1) < token_expiry ?s1" by simp
  have rw: "reachable example_lib example_client ?w"
    unfolding example_client_def by (rule reachable.created)
  have stale: "(\<not> truthy (access_token example_client)
        \<or> token_expiry example_client \<le> clock ?w (ticks ?w))
      \<and> reply ?w (length (sent ?w)) = Responds no_token_reply
      \<and> (status_code no_token_reply < 400 \<or> 600 \<le> status_code no_token_reply)
      \<and> body_json no_token_reply = Some (JObj [(''expires_in'', JInt 3600)])
      \<and> map_of [(''expires_in'', JInt 3600)] ''access_token'' = None"
    by (simp add: example_defs init_def)
  from returned_token_invariant[OF rw no_token_call] stale
  have c: "access_token ?s' = JNull"
    "\<forall>w2. \<not> fst (token_cached ?s' w2)"
    "\<forall>w2. sent (snd (snd (get_access_token example_lib ?s' w2))) = sent w2 @ [identity_request ?s']"
    by blast+
  show ?thesis
    using r0 a(1) a2 r1 g1 b' rw c
    by (simp add: example_token no_token_call Let_def)
qed

end
